theory Spec2Isabelle
  imports Main "HOL-Library.Word"
begin

unbundle bit_operations_syntax

section \<open>Data model of the relinker (syzygy/relink/relinker.cc)\<close>

text \<open>
  Blocks are heap objects that the code handles through pointers; a pointer is a
  \<open>block_id\<close> and the block graph is the store that maps every pointer to its object.
  A pointer that may be \<open>NULL\<close> is a \<open>block_id option\<close>. Addresses are the 32-bit
  values of \<open>RelativeAddress\<close>; sizes are \<open>size_t\<close> of the 32-bit Windows target.
\<close>

type_synonym block_id = nat
type_synonym addr = "32 word"
type_synonym byte = "8 word"

text \<open>A \<open>Range\<close> of an address space: start address and size.\<close>

type_synonym range = "addr \<times> 32 word"

text \<open>A \<open>GUID\<close> is 16 bytes.\<close>

type_synonym GUID = "128 word"

text \<open>The \<open>OMAP\<close> structure: \<open>{ rva, rvaTo }\<close>.\<close>

type_synonym OMAP = "addr \<times> addr"

text \<open>
  Modelled from the spec: \<open>BlockGraph::AddressSpace\<close> (syzygy/core/block_graph) is not
  part of the sources. The spec gives it as a placement of blocks into non-overlapping
  ranges \<open>[address, address + size)\<close> with three operations: insert a block at an
  address (fails on overlap), query all blocks intersecting a range (in ascending address
  order), and reverse lookup of the address of a block (fails if the block is not placed
  in this space). The range map is the list of its entries in ascending order of start
  address.
\<close>

type_synonym address_space = "(range \<times> block_id) list"

definition range_start :: "range \<Rightarrow> addr" where
  "range_start r = fst r"

definition intersects :: "range \<Rightarrow> range \<Rightarrow> bool" where
  "intersects r1 r2 =
     (unat (fst r1) < unat (fst r2) + unat (snd r2) \<and>
      unat (fst r2) < unat (fst r1) + unat (snd r1))"

fun insert_sorted :: "range \<times> block_id \<Rightarrow> address_space \<Rightarrow> address_space" where
  "insert_sorted e [] = [e]"
| "insert_sorted e (x # xs) =
     (if fst (fst e) \<le> fst (fst x) then e # x # xs else x # insert_sorted e xs)"

definition InsertBlock :: "addr \<Rightarrow> block_id \<Rightarrow> 32 word \<Rightarrow> address_space \<Rightarrow> address_space option" where
  "InsertBlock a b sz sp =
     (if list_ex (\<lambda>e. intersects (a, sz) (fst e)) sp then None
      else Some (insert_sorted ((a, sz), b) sp))"

definition GetIntersectingBlocks :: "address_space \<Rightarrow> addr \<Rightarrow> 32 word \<Rightarrow> (range \<times> block_id) list" where
  "GetIntersectingBlocks sp a sz = filter (\<lambda>e. intersects (a, sz) (fst e)) sp"

fun GetAddressOf :: "address_space \<Rightarrow> block_id \<Rightarrow> addr option" where
  "GetAddressOf [] b = None"
| "GetAddressOf (e # sp) b = (if snd e = b then Some (fst (fst e)) else GetAddressOf sp b)"

text \<open>The invariant of an address space: ascending start addresses, no two ranges overlap.\<close>

fun wf_space :: "address_space \<Rightarrow> bool" where
  "wf_space [] = True"
| "wf_space (e # sp) =
     (list_all (\<lambda>x. fst (fst e) \<le> fst (fst x) \<and> \<not> intersects (fst e) (fst x)) sp \<and> wf_space sp)"

subsection \<open>Blocks, references, headers\<close>

text \<open>
  Modelled from the spec: \<open>BlockGraph::Reference\<close> and \<open>BlockGraph::Block\<close> are declared
  outside the sources. A reference is a directed edge to an offset in a block; a block has
  a byte size, byte content (\<open>data()\<close> with \<open>data_size()\<close> its length), outgoing
  references keyed by source offset, and a diagnostic name.
\<close>

record reference =
  referenced :: block_id
  ref_offset :: int

record block =
  blk_name :: string
  blk_size :: "32 word"
  blk_data :: "byte list"
  blk_references :: "nat \<rightharpoonup> reference"

type_synonym block_graph = "block_id \<Rightarrow> block"

definition data_size :: "block \<Rightarrow> 32 word" where
  "data_size b = word_of_nat (length (blk_data b))"

definition GetReference :: "block \<Rightarrow> nat \<Rightarrow> reference option" where
  "GetReference b off = blk_references b off"

text \<open>The fields of \<open>IMAGE_SECTION_HEADER\<close> that the relinker reads.\<close>

record IMAGE_SECTION_HEADER =
  Name :: "byte list"
  VirtualSize :: "32 word"
  VirtualAddress :: "32 word"
  SizeOfRawData :: "32 word"
  Characteristics :: "32 word"

text \<open>The fields of \<open>IMAGE_NT_HEADERS\<close> that the relinker reads or writes.\<close>

record IMAGE_NT_HEADERS =
  NumberOfSections :: "16 word"
  FileHeader_Characteristics :: "16 word"
  ImageBase :: "32 word"
  MajorOperatingSystemVersion :: "16 word"
  MinorOperatingSystemVersion :: "16 word"
  MajorImageVersion :: "16 word"
  MinorImageVersion :: "16 word"
  MajorSubsystemVersion :: "16 word"
  MinorSubsystemVersion :: "16 word"
  Win32VersionValue :: "32 word"
  Subsystem :: "16 word"
  DllCharacteristics :: "16 word"
  SizeOfStackReserve :: "32 word"
  SizeOfStackCommit :: "32 word"
  SizeOfHeapReserve :: "32 word"
  SizeOfHeapCommit :: "32 word"
  LoaderFlags :: "32 word"

text \<open>\<open>PEFileParser::PEHeader\<close>: the header blocks and the 16 data-directory blocks.\<close>

record PEHeader =
  dos_header :: "block_id option"
  nt_headers :: "block_id option"
  data_directory :: "nat \<Rightarrow> block_id option"

text \<open>
  The relinker object: the members of \<open>RelinkerBase\<close> and \<open>Relinker\<close>, the block graph
  they point into, and the state of the \<open>PEFileBuilder\<close> member \<open>builder_\<close> that the
  code reads through its accessors. What else the builder keeps is reached only by the
  builder itself and has no field here.
\<close>

record relinker =
  graph :: block_graph
  original_num_sections :: "32 word"
  original_sections :: "IMAGE_SECTION_HEADER list"
  original_addr_space :: address_space
  new_image_guid :: GUID
  builder_nt_headers :: IMAGE_NT_HEADERS
  builder_section_headers :: "IMAGE_SECTION_HEADER list"
  builder_address_space :: address_space
  builder_entry_point :: "reference option"
  builder_dos_header_block :: block_id
  builder_nt_headers_block :: block_id

section \<open>Address translation (OMAP) generation\<close>

text \<open>
  \<open>AddOmapForBlockRange\<close>, relinker.cc lines 29-45: the loop over the iterator pair
  \<open>original\<close>, appending to the vector \<open>omap\<close>.
\<close>

fun AddOmapForBlockRange ::
  "(range \<times> block_id) list \<Rightarrow> address_space \<Rightarrow> OMAP list \<Rightarrow> OMAP list" where
  "AddOmapForBlockRange [] remapped omap = omap"
| "AddOmapForBlockRange (it # rest) remapped omap =
     (case GetAddressOf remapped (snd it) of
        Some to_addr \<Rightarrow> AddOmapForBlockRange rest remapped (omap @ [(range_start (fst it), to_addr)])
      | None \<Rightarrow> AddOmapForBlockRange rest remapped omap)"

text \<open>The entries one block of the range gives: one if it is placed in \<open>remapped\<close>, else none.\<close>

definition block_entries :: "address_space \<Rightarrow> range \<times> block_id \<Rightarrow> OMAP list" where
  "block_entries remapped it =
     (case GetAddressOf remapped (snd it) of
        Some to_addr \<Rightarrow> [(range_start (fst it), to_addr)]
      | None \<Rightarrow> [])"

text \<open>
  \<open>AddOmapForAllSections\<close>, lines 47-59: \<open>for (size_t i = 0; i < num_sections; ++i)\<close>.
  \<open>sections\<close> is a C array; reading \<open>sections[i]\<close> beyond its end is undefined
  behaviour, which the model returns as \<open>None\<close>.
\<close>

function AddOmapForAllSections_loop ::
  "nat \<Rightarrow> nat \<Rightarrow> IMAGE_SECTION_HEADER list \<Rightarrow> address_space \<Rightarrow> address_space \<Rightarrow>
   OMAP list \<Rightarrow> OMAP list option" where
  "AddOmapForAllSections_loop i num_sections sections from to omap =
     (if i < num_sections then
        (if i < length sections then
           AddOmapForAllSections_loop (Suc i) num_sections sections from to
             (AddOmapForBlockRange
                (GetIntersectingBlocks from (VirtualAddress (sections ! i))
                   (VirtualSize (sections ! i))) to omap)
         else None)
      else Some omap)"
  by pat_completeness auto
termination
  by (relation "measure (\<lambda>(i, n, _). n - i)") auto

declare AddOmapForAllSections_loop.simps [simp del]

definition AddOmapForAllSections ::
  "nat \<Rightarrow> IMAGE_SECTION_HEADER list \<Rightarrow> address_space \<Rightarrow> address_space \<Rightarrow>
   OMAP list \<Rightarrow> OMAP list option" where
  "AddOmapForAllSections num_sections sections from to omap =
     AddOmapForAllSections_loop 0 num_sections sections from to omap"

text \<open>The entries one section gives: those of the blocks intersecting it, in order.\<close>

definition section_entries ::
  "address_space \<Rightarrow> address_space \<Rightarrow> IMAGE_SECTION_HEADER \<Rightarrow> OMAP list" where
  "section_entries from to s =
     concat (map (block_entries to)
       (GetIntersectingBlocks from (VirtualAddress s) (VirtualSize s)))"

text \<open>
  \<open>Relinker::WritePDBFile\<close>, lines 385-412. The two tables it computes, and the call of
  the external \<open>pdb::AddOmapStreamToPdbFile\<close>, which is a parameter. Both counts are
  \<open>size_t\<close> values: \<open>NumberOfSections - 1\<close> converted to \<open>size_t\<close>, and
  \<open>original_num_sections() - 1\<close>; at a count of zero they wrap to \<open>2^32 - 1\<close>.
\<close>

definition WritePDBFile_omap_to :: "relinker \<Rightarrow> OMAP list option" where
  "WritePDBFile_omap_to r =
     AddOmapForAllSections
       (unat ((ucast (NumberOfSections (builder_nt_headers r)) :: 32 word) - 1))
       (builder_section_headers r) (builder_address_space r) (original_addr_space r) []"

definition WritePDBFile_omap_from :: "relinker \<Rightarrow> OMAP list option" where
  "WritePDBFile_omap_from r =
     AddOmapForAllSections (unat (original_num_sections r - 1))
       (original_sections r) (original_addr_space r) (builder_address_space r) []"

definition WritePDBFile ::
  "(string \<Rightarrow> string \<Rightarrow> GUID \<Rightarrow> OMAP list \<Rightarrow> OMAP list \<Rightarrow> bool) \<Rightarrow>
   string \<Rightarrow> string \<Rightarrow> relinker \<Rightarrow> bool option" where
  "WritePDBFile AddOmapStreamToPdbFile input_path output_path r =
     (case WritePDBFile_omap_to r of
        None \<Rightarrow> None
      | Some omap_to \<Rightarrow>
          (case WritePDBFile_omap_from r of
             None \<Rightarrow> None
           | Some omap_from \<Rightarrow>
               Some (AddOmapStreamToPdbFile input_path output_path (new_image_guid r)
                       omap_to omap_from)))"

section \<open>Constants of the Windows headers\<close>

text \<open>
  Modelled from the spec: the Windows SDK declarations (\<open>winnt.h\<close>) and
  \<open>syzygy/pe/pe_data.h\<close> are not part of the sources. The spec speaks of a fixed header size,
  a section-header size, a fixed debug-directory record size and a fixed payload header;
  the values are those of the 32-bit layout: \<open>sizeof(IMAGE_NT_HEADERS)\<close>,
  \<open>sizeof(IMAGE_SECTION_HEADER)\<close>, \<open>sizeof(IMAGE_DEBUG_DIRECTORY)\<close> and
  \<open>sizeof(pe::CvInfoPdb70)\<close>, then the numeric macros the code names.
\<close>

definition sizeof_IMAGE_NT_HEADERS :: "32 word" where
  "sizeof_IMAGE_NT_HEADERS = 248"

definition sizeof_IMAGE_SECTION_HEADER :: "32 word" where
  "sizeof_IMAGE_SECTION_HEADER = 40"

definition sizeof_IMAGE_DEBUG_DIRECTORY :: "32 word" where
  "sizeof_IMAGE_DEBUG_DIRECTORY = 28"

definition sizeof_CvInfoPdb70 :: "32 word" where
  "sizeof_CvInfoPdb70 = 28"

definition IMAGE_NUMBEROF_DIRECTORY_ENTRIES :: nat where
  "IMAGE_NUMBEROF_DIRECTORY_ENTRIES = 16"

definition IMAGE_DIRECTORY_ENTRY_BASERELOC :: nat where
  "IMAGE_DIRECTORY_ENTRY_BASERELOC = 5"

definition IMAGE_DIRECTORY_ENTRY_DEBUG :: nat where
  "IMAGE_DIRECTORY_ENTRY_DEBUG = 6"

definition IMAGE_DEBUG_TYPE_CODEVIEW :: "32 word" where
  "IMAGE_DEBUG_TYPE_CODEVIEW = 2"

definition IMAGE_SCN_CNT_CODE :: "32 word" where
  "IMAGE_SCN_CNT_CODE = 0x20"

text \<open>Little-endian fields of a byte buffer; every read below follows a check of the size.\<close>

definition le16 :: "byte list \<Rightarrow> nat \<Rightarrow> 16 word" where
  "le16 d off = ucast (d ! off) OR push_bit 8 (ucast (d ! (off + 1)))"

definition le32 :: "byte list \<Rightarrow> nat \<Rightarrow> 32 word" where
  "le32 d off =
     ucast (d ! off) OR push_bit 8 (ucast (d ! (off + 1))) OR
     push_bit 16 (ucast (d ! (off + 2))) OR push_bit 24 (ucast (d ! (off + 3)))"

definition bytes_of_u32 :: "32 word \<Rightarrow> byte list" where
  "bytes_of_u32 w = [ucast w, ucast (drop_bit 8 w), ucast (drop_bit 16 w), ucast (drop_bit 24 w)]"

definition bytes_of_guid :: "GUID \<Rightarrow> byte list" where
  "bytes_of_guid w = map (\<lambda>i. ucast (drop_bit (8 * i) w)) [0..<16]"

definition write_bytes :: "byte list \<Rightarrow> nat \<Rightarrow> byte list \<Rightarrow> byte list" where
  "write_bytes d off bs = take off d @ bs @ drop (off + length bs) d"

text \<open>\<open>reinterpret_cast<const IMAGE_NT_HEADERS*>(data)\<close>: the fields at their offsets.\<close>

definition nt_headers_of :: "byte list \<Rightarrow> IMAGE_NT_HEADERS" where
  "nt_headers_of d =
     \<lparr>NumberOfSections = le16 d 6,
      FileHeader_Characteristics = le16 d 22,
      ImageBase = le32 d 52,
      MajorOperatingSystemVersion = le16 d 64,
      MinorOperatingSystemVersion = le16 d 66,
      MajorImageVersion = le16 d 68,
      MinorImageVersion = le16 d 70,
      MajorSubsystemVersion = le16 d 72,
      MinorSubsystemVersion = le16 d 74,
      Win32VersionValue = le32 d 76,
      Subsystem = le16 d 92,
      DllCharacteristics = le16 d 94,
      SizeOfStackReserve = le32 d 96,
      SizeOfStackCommit = le32 d 100,
      SizeOfHeapReserve = le32 d 104,
      SizeOfHeapCommit = le32 d 108,
      LoaderFlags = le32 d 112\<rparr>"

text \<open>\<open>FIELD_OFFSET(IMAGE_NT_HEADERS, OptionalHeader.AddressOfEntryPoint)\<close>.\<close>

definition entrypoint_offset :: nat where
  "entrypoint_offset = 40"

text \<open>\<open>reinterpret_cast<const IMAGE_SECTION_HEADER*>(nt_headers + 1)\<close>, entry \<open>i\<close>.\<close>

definition section_header_of :: "byte list \<Rightarrow> nat \<Rightarrow> IMAGE_SECTION_HEADER" where
  "section_header_of d off =
     \<lparr>Name = take 8 (drop off d),
      VirtualSize = le32 d (off + 8),
      VirtualAddress = le32 d (off + 12),
      SizeOfRawData = le32 d (off + 16),
      Characteristics = le32 d (off + 36)\<rparr>"

definition section_headers_of :: "byte list \<Rightarrow> nat \<Rightarrow> IMAGE_SECTION_HEADER list" where
  "section_headers_of d n = map (\<lambda>i. section_header_of d (248 + 40 * i)) [0..<n]"

section \<open>The collaborators of the relinker\<close>

text \<open>
  The image layout builder, the image writer, the debug-file rewriter, the code-ordering
  policy (the pure virtual \<open>ReorderCode\<close>) and the operating system are outside the sources;
  they are parameters. A collaborator that can change the builder or the graph takes the
  relinker state and returns it.
\<close>

record externals =
  AddSegment :: "string \<Rightarrow> 32 word \<Rightarrow> 32 word \<Rightarrow> 32 word \<Rightarrow> relinker \<Rightarrow> addr \<times> relinker"
  SetDataDirectoryEntry :: "nat \<Rightarrow> block_id \<Rightarrow> relinker \<Rightarrow> bool \<times> relinker"
  CreateRelocsSection :: "relinker \<Rightarrow> bool \<times> relinker"
  FinalizeHeaders :: "relinker \<Rightarrow> bool \<times> relinker"
  ReorderCode :: "IMAGE_SECTION_HEADER \<Rightarrow> relinker \<Rightarrow> bool \<times> relinker"
  PEFileWriter_WriteImage :: "string \<Rightarrow> relinker \<Rightarrow> bool"
  AddOmapStreamToPdbFile :: "string \<Rightarrow> string \<Rightarrow> GUID \<Rightarrow> OMAP list \<Rightarrow> OMAP list \<Rightarrow> bool"
  CoCreateGuid :: "GUID option"
  time_now :: "32 word"
  alloc_ok :: "nat \<Rightarrow> bool"
  TransferReferrers_ok :: "block_id \<Rightarrow> block_id \<Rightarrow> block_graph \<Rightarrow> bool"

text \<open>
  Modelled from the spec: \<open>Block::CopyData\<close> is not part of the sources. It gives the block
  a fresh buffer holding a copy of the bytes handed in and returns the buffer, or \<open>NULL\<close>
  when the allocation fails.
\<close>

definition CopyData :: "externals \<Rightarrow> block_id \<Rightarrow> byte list \<Rightarrow> block_graph \<Rightarrow> block_graph option" where
  "CopyData ext b bytes g =
     (if alloc_ok ext (length bytes) then Some (g(b := (g b)\<lparr>blk_data := bytes\<rparr>)) else None)"

text \<open>
  Modelled from the spec: \<open>Block::TransferReferrers\<close> is not part of the sources. The spec
  has header finalization retarget every remaining reference into an original header
  block onto its newly built replacement, so that no reference into the discarded block
  survives, and the comments at the two calls say that everyone who referred to the old
  header is redirected to the new one. So every reference whose target is the block is
  moved to the new block; the offset argument of the call (0 at both calls) displaces the
  reference inside the new block, so that a reference to offset 0 ends at offset 0. The
  spec does not say when the operation reports failure; that is the parameter
  \<open>TransferReferrers_ok\<close>.
\<close>

definition retarget :: "block_id \<Rightarrow> int \<Rightarrow> block_id \<Rightarrow> reference \<Rightarrow> reference" where
  "retarget old off new ref =
     (if referenced ref = old
      then \<lparr>referenced = new, ref_offset = ref_offset ref + off\<rparr> else ref)"

definition TransferReferrers ::
  "externals \<Rightarrow> block_id \<Rightarrow> int \<Rightarrow> block_id \<Rightarrow> block_graph \<Rightarrow> block_graph option" where
  "TransferReferrers ext old off new g =
     (if TransferReferrers_ok ext old new g
      then Some (\<lambda>b. (g b)\<lparr>blk_references :=
                   (\<lambda>src. map_option (retarget old off new) (blk_references (g b) src))\<rparr>)
      else None)"

section \<open>RelinkerBase\<close>

text \<open>
  \<open>RelinkerBase::Initialize\<close>, lines 75-149. The sizes are \<open>size_t\<close> values and
  \<open>nt_headers_size\<close> is computed in \<open>size_t\<close>. A failure of the entry-point lookup
  returns after the header fields and the section view have been stored.
\<close>

definition Initialize :: "block_id option \<Rightarrow> relinker \<Rightarrow> bool \<times> relinker" where
  "Initialize original_nt_headers r =
     (case original_nt_headers of
        None \<Rightarrow> (False, r)
      | Some p \<Rightarrow>
          let b = graph r p in
          if blk_size b < sizeof_IMAGE_NT_HEADERS \<or> data_size b \<noteq> blk_size b then (False, r)
          else
            let nt = nt_headers_of (blk_data b);
                num_sections = (ucast (NumberOfSections nt) :: 32 word);
                nt_headers_size = sizeof_IMAGE_NT_HEADERS + num_sections * sizeof_IMAGE_SECTION_HEADER
            in
            if data_size b \<noteq> nt_headers_size then (False, r)
            else
              let r1 = r\<lparr>builder_nt_headers := (builder_nt_headers r)
                          \<lparr>FileHeader_Characteristics := FileHeader_Characteristics nt,
                           ImageBase := ImageBase nt,
                           MajorOperatingSystemVersion := MajorOperatingSystemVersion nt,
                           MinorOperatingSystemVersion := MinorOperatingSystemVersion nt,
                           MajorImageVersion := MajorImageVersion nt,
                           MinorImageVersion := MinorImageVersion nt,
                           MajorSubsystemVersion := MajorSubsystemVersion nt,
                           MinorSubsystemVersion := MinorSubsystemVersion nt,
                           Win32VersionValue := Win32VersionValue nt,
                           Subsystem := Subsystem nt,
                           DllCharacteristics := DllCharacteristics nt,
                           SizeOfStackReserve := SizeOfStackReserve nt,
                           SizeOfStackCommit := SizeOfStackCommit nt,
                           SizeOfHeapReserve := SizeOfHeapReserve nt,
                           SizeOfHeapCommit := SizeOfHeapCommit nt,
                           LoaderFlags := LoaderFlags nt\<rparr>,
                        original_num_sections := num_sections,
                        original_sections := section_headers_of (blk_data b) (unat num_sections)\<rparr>
              in
              (case GetReference b entrypoint_offset of
                 None \<Rightarrow> (False, r1)
               | Some entry_point \<Rightarrow> (True, r1\<lparr>builder_entry_point := Some entry_point\<rparr>)))"

text \<open>
  \<open>RelinkerBase::CopyDataDirectory\<close>, lines 151-166: the loop over the 16 entries of
  \<open>original_header.data_directory\<close>.
\<close>

function CopyDataDirectory_loop ::
  "externals \<Rightarrow> PEHeader \<Rightarrow> nat \<Rightarrow> relinker \<Rightarrow> bool \<times> relinker" where
  "CopyDataDirectory_loop ext original_header i r =
     (if i < IMAGE_NUMBEROF_DIRECTORY_ENTRIES then
        (case data_directory original_header i of
           Some block \<Rightarrow>
             if i \<noteq> IMAGE_DIRECTORY_ENTRY_BASERELOC then
               (case SetDataDirectoryEntry ext i block r of
                  (False, r') \<Rightarrow> (False, r')
                | (True, r') \<Rightarrow> CopyDataDirectory_loop ext original_header (Suc i) r')
             else CopyDataDirectory_loop ext original_header (Suc i) r
         | None \<Rightarrow> CopyDataDirectory_loop ext original_header (Suc i) r)
      else (True, r))"
  by pat_completeness auto
termination
  by (relation "measure (\<lambda>(_, _, i, _). IMAGE_NUMBEROF_DIRECTORY_ENTRIES - i)") auto

declare CopyDataDirectory_loop.simps [simp del]

definition CopyDataDirectory :: "externals \<Rightarrow> PEHeader \<Rightarrow> relinker \<Rightarrow> bool \<times> relinker" where
  "CopyDataDirectory ext original_header r = CopyDataDirectory_loop ext original_header 0 r"

text \<open>
  \<open>RelinkerBase::FinalizeImageHeaders\<close>, lines 168-196. \<open>dos_header\<close> and \<open>nt_headers\<close>
  are dereferenced without a check: a \<open>NULL\<close> there is undefined behaviour, the result
  \<open>None\<close>.
\<close>

definition FinalizeImageHeaders ::
  "externals \<Rightarrow> PEHeader \<Rightarrow> relinker \<Rightarrow> (bool \<times> relinker) option" where
  "FinalizeImageHeaders ext original_header r =
     (case CreateRelocsSection ext r of
        (False, r1) \<Rightarrow> Some (False, r1)
      | (True, r1) \<Rightarrow>
          (case FinalizeHeaders ext r1 of
             (False, r2) \<Rightarrow> Some (False, r2)
           | (True, r2) \<Rightarrow>
               (case dos_header original_header of
                  None \<Rightarrow> None
                | Some dos \<Rightarrow>
                    (case TransferReferrers ext dos 0 (builder_dos_header_block r2) (graph r2) of
                       None \<Rightarrow> Some (False, r2)
                     | Some g3 \<Rightarrow>
                         (case nt_headers original_header of
                            None \<Rightarrow> None
                          | Some nt \<Rightarrow>
                              (case TransferReferrers ext nt 0 (builder_nt_headers_block r2) g3 of
                                 None \<Rightarrow> Some (False, r2\<lparr>graph := g3\<rparr>)
                               | Some g4 \<Rightarrow> Some (True, r2\<lparr>graph := g4\<rparr>)))))))"

text \<open>\<open>RelinkerBase::WriteImage\<close>, lines 198-209.\<close>

definition WriteImage :: "externals \<Rightarrow> string \<Rightarrow> relinker \<Rightarrow> bool" where
  "WriteImage ext output_path r = PEFileWriter_WriteImage ext output_path r"

text \<open>
  \<open>RelinkerBase::CopyBlocks\<close>, lines 235-252: the loop over the iterator pair, inserting
  into \<open>builder().address_space()\<close>. \<open>insert_at += block->size()\<close> is 32-bit addition.
\<close>

fun CopyBlocks :: "(range \<times> block_id) list \<Rightarrow> addr \<Rightarrow> relinker \<Rightarrow> bool \<times> relinker" where
  "CopyBlocks [] insert_at r = (True, r)"
| "CopyBlocks (it # rest) insert_at r =
     (let block = snd it in
      case InsertBlock insert_at block (blk_size (graph r block)) (builder_address_space r) of
        None \<Rightarrow> (False, r)
      | Some sp \<Rightarrow>
          CopyBlocks rest (insert_at + blk_size (graph r block)) (r\<lparr>builder_address_space := sp\<rparr>))"

text \<open>
  \<open>RelinkerBase::CopySection\<close>, lines 211-233. \<open>strnlen(name, 8)\<close> stops at the first
  zero byte of the 8-byte name.
\<close>

definition section_name :: "IMAGE_SECTION_HEADER \<Rightarrow> string" where
  "section_name section_hdr =
     map (\<lambda>c. char_of (unat c)) (takeWhile (\<lambda>c. c \<noteq> 0) (take 8 (Name section_hdr)))"

definition CopySection :: "externals \<Rightarrow> IMAGE_SECTION_HEADER \<Rightarrow> relinker \<Rightarrow> bool \<times> relinker" where
  "CopySection ext section_hdr r =
     (let name_str = section_name section_hdr;
          (start, r1) = AddSegment ext name_str (VirtualSize section_hdr)
                          (SizeOfRawData section_hdr) (Characteristics section_hdr) r;
          section_blocks = GetIntersectingBlocks (original_addr_space r1)
                             (VirtualAddress section_hdr) (VirtualSize section_hdr)
      in CopyBlocks section_blocks start r1)"

section \<open>Relinker\<close>

text \<open>\<open>Relinker::Initialize\<close>, lines 317-328.\<close>

definition Relinker_Initialize ::
  "externals \<Rightarrow> block_id option \<Rightarrow> relinker \<Rightarrow> bool \<times> relinker" where
  "Relinker_Initialize ext original_nt_headers r =
     (case Initialize original_nt_headers r of
        (False, r1) \<Rightarrow> (False, r1)
      | (True, r1) \<Rightarrow>
          (case CoCreateGuid ext of
             None \<Rightarrow> (False, r1)
           | Some guid \<Rightarrow> (True, r1\<lparr>new_image_guid := guid\<rparr>)))"

text \<open>
  \<open>Relinker::UpdateDebugInformation\<close>, lines 330-383. The fields of
  \<open>IMAGE_DEBUG_DIRECTORY\<close>: \<open>TimeDateStamp\<close> at offset 4, \<open>Type\<close> at 12,
  \<open>AddressOfRawData\<close> at 20; the \<open>signature\<close> of \<open>CvInfoPdb70\<close> is the 16 bytes at
  offset 4. The block pointer is dereferenced without a check, and the signature is
  written into the copy of the payload whatever its length: a \<open>NULL\<close> block and a copy
  shorter than 20 bytes are undefined behaviour, the result \<open>None\<close>.
\<close>

definition UpdateDebugInformation ::
  "externals \<Rightarrow> block_id option \<Rightarrow> relinker \<Rightarrow> (bool \<times> relinker) option" where
  "UpdateDebugInformation ext debug_directory_block r =
     (case debug_directory_block of
        None \<Rightarrow> None
      | Some p \<Rightarrow>
          if data_size (graph r p) \<noteq> sizeof_IMAGE_DEBUG_DIRECTORY then Some (False, r)
          else
            let debug_dir = blk_data (graph r p) in
            if le32 debug_dir 12 \<noteq> IMAGE_DEBUG_TYPE_CODEVIEW then Some (False, r)
            else
              let debug_dir' = write_bytes debug_dir 4 (bytes_of_u32 (time_now ext)) in
              (case CopyData ext p debug_dir' (graph r) of
                 None \<Rightarrow> Some (False, r)
               | Some g1 \<Rightarrow>
                   let r1 = r\<lparr>graph := g1\<rparr> in
                   (case GetReference (g1 p) 20 of
                      None \<Rightarrow> Some (False, r1)
                    | Some ref \<Rightarrow>
                        if ref_offset ref \<noteq> 0 \<or>
                           blk_size (g1 (referenced ref)) < sizeof_CvInfoPdb70
                        then Some (False, r1)
                        else
                          let debug_info_block = referenced ref in
                          (case CopyData ext debug_info_block (blk_data (g1 debug_info_block)) g1 of
                             None \<Rightarrow> Some (False, r1)
                           | Some g2 \<Rightarrow>
                               let debug_info = blk_data (g2 debug_info_block) in
                               if length debug_info < 20 then None
                               else Some (True, r1\<lparr>graph := g2(debug_info_block :=
                                      (g2 debug_info_block)\<lparr>blk_data :=
                                         write_bytes debug_info 4 (bytes_of_guid (new_image_guid r))\<rparr>)\<rparr>)))))"

text \<open>The messages \<open>Relink\<close> itself writes with \<open>LOG(ERROR)\<close>.\<close>

datatype log_message =
    Unable_to_initialize
  | Unable_to_reorder_code
  | Unable_to_copy_section
  | Unable_to_update_debug_information
  | Unable_to_copy_data_directory
  | Unable_to_finalize_image_headers
  | Unable_to_write_image
  | Unable_to_write_new_PDB_file

text \<open>
  The section loop of \<open>Relink\<close>, lines 276-288, from index \<open>i\<close>. The bound
  \<open>original_num_sections() - 1\<close> is a \<open>size_t\<close> and the section array has the length that
  \<open>Initialize\<close> validated; both are private members that only \<open>Initialize\<close> writes, so
  the loop takes them as they are after \<open>Initialize\<close>. Reading beyond the array is
  undefined behaviour, the result \<open>None\<close>.
\<close>

function Relink_sections ::
  "externals \<Rightarrow> IMAGE_SECTION_HEADER list \<Rightarrow> nat \<Rightarrow> nat \<Rightarrow> log_message list \<Rightarrow> relinker \<Rightarrow>
   (bool \<times> log_message list \<times> relinker) option" where
  "Relink_sections ext sections n i log r =
     (if i < n then
        (if i < length sections then
           (let section_hdr = sections ! i in
            if Characteristics section_hdr AND IMAGE_SCN_CNT_CODE \<noteq> 0 then
              (case ReorderCode ext section_hdr r of
                 (False, r') \<Rightarrow>
                   Relink_sections ext sections n (Suc i) (log @ [Unable_to_reorder_code]) r'
               | (True, r') \<Rightarrow> Relink_sections ext sections n (Suc i) log r')
            else
              (case CopySection ext section_hdr r of
                 (False, r') \<Rightarrow> Some (False, log @ [Unable_to_copy_section], r')
               | (True, r') \<Rightarrow> Relink_sections ext sections n (Suc i) log r'))
         else None)
      else Some (True, log, r))"
  by pat_completeness auto
termination
  by (relation "measure (\<lambda>(_, _, n, i, _, _). n - i)") auto

declare Relink_sections.simps [simp del]

text \<open>
  \<open>Relinker::Relink\<close>, lines 262-315. The result is the returned flag, the messages
  logged by \<open>Relink\<close>, and the relinker state. The three \<open>DCHECK\<close>s on the paths are
  debug-build assertions and are not part of the behaviour modelled.
\<close>

definition Relink_finish ::
  "externals \<Rightarrow> PEHeader \<Rightarrow> string \<Rightarrow> string \<Rightarrow> string \<Rightarrow> log_message list \<Rightarrow> relinker \<Rightarrow>
   (bool \<times> log_message list \<times> relinker) option" where
  "Relink_finish ext original_header input_pdb_path output_dll_path output_pdb_path log r =
     (if \<not> WriteImage ext output_dll_path r then Some (False, log @ [Unable_to_write_image], r)
      else
        (case WritePDBFile (AddOmapStreamToPdbFile ext) input_pdb_path output_pdb_path r of
           None \<Rightarrow> None
         | Some False \<Rightarrow> Some (False, log @ [Unable_to_write_new_PDB_file], r)
         | Some True \<Rightarrow> Some (True, log, r)))"

definition Relink ::
  "externals \<Rightarrow> PEHeader \<Rightarrow> string \<Rightarrow> string \<Rightarrow> string \<Rightarrow> relinker \<Rightarrow>
   (bool \<times> log_message list \<times> relinker) option" where
  "Relink ext original_header input_pdb_path output_dll_path output_pdb_path r =
     (case Relinker_Initialize ext (nt_headers original_header) r of
        (False, r1) \<Rightarrow> Some (False, [Unable_to_initialize], r1)
      | (True, r1) \<Rightarrow>
          (case Relink_sections ext (original_sections r1)
                  (unat (original_num_sections r1 - 1)) 0 [] r1 of
             None \<Rightarrow> None
           | Some (False, log2, r2) \<Rightarrow> Some (False, log2, r2)
           | Some (True, log2, r2) \<Rightarrow>
               (case UpdateDebugInformation ext
                       (data_directory original_header IMAGE_DIRECTORY_ENTRY_DEBUG) r2 of
                  None \<Rightarrow> None
                | Some (False, r3) \<Rightarrow>
                    Some (False, log2 @ [Unable_to_update_debug_information], r3)
                | Some (True, r3) \<Rightarrow>
                    (case CopyDataDirectory ext original_header r3 of
                       (False, r4) \<Rightarrow> Some (False, log2 @ [Unable_to_copy_data_directory], r4)
                     | (True, r4) \<Rightarrow>
                         (case FinalizeImageHeaders ext original_header r4 of
                            None \<Rightarrow> None
                          | Some (False, r5) \<Rightarrow>
                              Relink_finish ext original_header input_pdb_path output_dll_path
                                output_pdb_path (log2 @ [Unable_to_finalize_image_headers]) r5
                          | Some (True, r5) \<Rightarrow>
                              Relink_finish ext original_header input_pdb_path output_dll_path
                                output_pdb_path log2 r5)))))"

section \<open>Specification vocabulary\<close>

text \<open>
  The definitions of this section are not translations of code: they say in closed form
  what the claims about the code speak of, and the theorems compare the code with them.
\<close>

text \<open>Section headers in ascending address order, none reaching into a later one.\<close>

fun sections_ascending :: "IMAGE_SECTION_HEADER list \<Rightarrow> bool" where
  "sections_ascending [] = True"
| "sections_ascending (s # ss) =
     (list_all (\<lambda>t. unat (VirtualAddress s) + unat (VirtualSize s) \<le> unat (VirtualAddress t)) ss
      \<and> sections_ascending ss)"

text \<open>
  A table maps \<open>src\<close> addresses to \<open>dst\<close> addresses: every entry pairs the start of a
  range of \<open>src\<close> with the address that the block of that range has in \<open>dst\<close>.
\<close>

definition maps_between :: "address_space \<Rightarrow> address_space \<Rightarrow> OMAP list \<Rightarrow> bool" where
  "maps_between src dst omap =
     list_all (\<lambda>entry. list_ex (\<lambda>e. fst (fst e) = fst entry \<and>
                                    GetAddressOf dst (snd e) = Some (snd entry)) src) omap"

text \<open>Taking a block out of an address space, and out of both spaces of a relinker.\<close>

definition remove_block :: "block_id \<Rightarrow> address_space \<Rightarrow> address_space" where
  "remove_block b sp = filter (\<lambda>e. snd e \<noteq> b) sp"

definition remove_from_spaces :: "block_id \<Rightarrow> relinker \<Rightarrow> relinker" where
  "remove_from_spaces b r =
     r\<lparr>original_addr_space := remove_block b (original_addr_space r),
       builder_address_space := remove_block b (builder_address_space r)\<rparr>"

text \<open>No placement of block \<open>b\<close> in \<open>sp\<close> intersects a section other than the last.\<close>

definition only_in_last_section ::
  "address_space \<Rightarrow> IMAGE_SECTION_HEADER list \<Rightarrow> block_id \<Rightarrow> bool" where
  "only_in_last_section sp sections b =
     list_all (\<lambda>e. snd e \<noteq> b \<or>
        list_all (\<lambda>s. \<not> intersects (VirtualAddress s, VirtualSize s) (fst e)) (butlast sections)) sp"

text \<open>
  Where block \<open>i\<close> of a range goes when the copy starts at \<open>start\<close>: the start plus the
  sizes of the blocks before it, in 32-bit arithmetic.
\<close>

definition destination :: "block_graph \<Rightarrow> (range \<times> block_id) list \<Rightarrow> addr \<Rightarrow> nat \<Rightarrow> addr" where
  "destination g its start i = start + sum_list (map (\<lambda>it. blk_size (g (snd it))) (take i its))"

definition placements :: "block_graph \<Rightarrow> (range \<times> block_id) list \<Rightarrow> addr \<Rightarrow> (addr \<times> block_id) list" where
  "placements g its start = map (\<lambda>i. (destination g its start i, snd (its ! i))) [0..<length its]"

text \<open>Inserting a list of (address, block) pairs one after the other, all or nothing.\<close>

fun insert_all :: "block_graph \<Rightarrow> (addr \<times> block_id) list \<Rightarrow> address_space \<Rightarrow> address_space option" where
  "insert_all g [] sp = Some sp"
| "insert_all g (p # ps) sp =
     (case InsertBlock (fst p) (snd p) (blk_size (g (snd p))) sp of
        None \<Rightarrow> None
      | Some sp' \<Rightarrow> insert_all g ps sp')"

text \<open>
  The data-directory entries to copy: the populated ones other than the relocation slot,
  each with its index, in index order; and assigning a list of entries until one is
  rejected.
\<close>

definition copied_entry :: "PEHeader \<Rightarrow> nat \<Rightarrow> (nat \<times> block_id) list" where
  "copied_entry original_header i =
     (case data_directory original_header i of
        Some block \<Rightarrow> if i \<noteq> IMAGE_DIRECTORY_ENTRY_BASERELOC then [(i, block)] else []
      | None \<Rightarrow> [])"

definition copied_entries :: "PEHeader \<Rightarrow> (nat \<times> block_id) list" where
  "copied_entries original_header =
     concat (map (copied_entry original_header) [0..<IMAGE_NUMBEROF_DIRECTORY_ENTRIES])"

fun assign_all :: "externals \<Rightarrow> (nat \<times> block_id) list \<Rightarrow> relinker \<Rightarrow> bool \<times> relinker" where
  "assign_all ext [] r = (True, r)"
| "assign_all ext (e # es) r =
     (case SetDataDirectoryEntry ext (fst e) (snd e) r of
        (False, r') \<Rightarrow> (False, r')
      | (True, r') \<Rightarrow> assign_all ext es r')"

text \<open>The state in which the builder hands the graph to the two reference transfers.\<close>

definition builder_finalized :: "externals \<Rightarrow> relinker \<Rightarrow> relinker" where
  "builder_finalized ext r = snd (FinalizeHeaders ext (snd (CreateRelocsSection ext r)))"

text \<open>The reference that block \<open>b\<close> holds at source offset \<open>src\<close>.\<close>

definition reference_at :: "block_id \<Rightarrow> nat \<Rightarrow> relinker \<Rightarrow> reference option" where
  "reference_at b src r = blk_references (graph r b) src"







text \<open>
  The table of a walk: for each of the sections in turn, for each block of \<open>src\<close> that
  intersects the section, in address order, the start of its range in \<open>src\<close> paired with
  its address in \<open>dst\<close>, if it has one.
\<close>

definition translation_table ::
  "IMAGE_SECTION_HEADER list \<Rightarrow> address_space \<Rightarrow> address_space \<Rightarrow> OMAP list" where
  "translation_table sections src dst =
     concat (map (\<lambda>s. concat (map (\<lambda>it. case GetAddressOf dst (snd it) of
                                            Some a \<Rightarrow> [(fst (fst it), a)]
                                          | None \<Rightarrow> [])
                            (GetIntersectingBlocks src (VirtualAddress s) (VirtualSize s))))
                 sections)"

section \<open>Example inputs\<close>

definition mk_section :: "32 word \<Rightarrow> 32 word \<Rightarrow> 32 word \<Rightarrow> IMAGE_SECTION_HEADER" where
  "mk_section va vs ch =
     \<lparr>Name = [], VirtualSize = vs, VirtualAddress = va, SizeOfRawData = vs, Characteristics = ch\<rparr>"

definition ex_space :: address_space where
  "ex_space = [((0x1000, 0x10), 1), ((0x2000, 0x10), 2)]"

definition ex_block :: block where
  "ex_block = \<lparr>blk_name = [], blk_size = 0x10, blk_data = [], blk_references = Map.empty\<rparr>"

definition ex_nt_headers :: "16 word \<Rightarrow> IMAGE_NT_HEADERS" where
  "ex_nt_headers n = \<lparr>NumberOfSections = n, FileHeader_Characteristics = 0, ImageBase = 0,
     MajorOperatingSystemVersion = 0, MinorOperatingSystemVersion = 0, MajorImageVersion = 0,
     MinorImageVersion = 0, MajorSubsystemVersion = 0, MinorSubsystemVersion = 0,
     Win32VersionValue = 0, Subsystem = 0, DllCharacteristics = 0, SizeOfStackReserve = 0,
     SizeOfStackCommit = 0, SizeOfHeapReserve = 0, SizeOfHeapCommit = 0, LoaderFlags = 0\<rparr>"

text \<open>
  An original image of two sections with block 1 in the first and block 2 in the last,
  relinked into three sections with block 1 in the first, block 2 in the second and
  block 3 in the last.
\<close>

definition ex_relinker :: relinker where
  "ex_relinker = \<lparr>graph = (\<lambda>_. ex_block),
     original_num_sections = 2,
     original_sections = [mk_section 0x1000 0x100 0, mk_section 0x3000 0x100 0],
     original_addr_space = [((0x1000, 0x10), 1), ((0x3000, 0x10), 2)],
     new_image_guid = 0,
     builder_nt_headers = ex_nt_headers 3,
     builder_section_headers =
       [mk_section 0x5000 0x100 0, mk_section 0x6000 0x100 0, mk_section 0x7000 0x100 0],
     builder_address_space = [((0x5000, 0x10), 1), ((0x6000, 0x10), 2), ((0x7000, 0x10), 3)],
     builder_entry_point = None,
     builder_dos_header_block = 10,
     builder_nt_headers_block = 11\<rparr>"

text \<open>A 288-byte NT-headers block (room for one section header) declaring \<open>n\<close> sections.\<close>

definition ex_header_block :: "8 word \<Rightarrow> block" where
  "ex_header_block n = \<lparr>blk_name = ''nt'', blk_size = 288, blk_data = (replicate 288 0)[6 := n],
     blk_references = [40 \<mapsto> \<lparr>referenced = 1, ref_offset = 0\<rparr>]\<rparr>"

text \<open>Collaborators that accept everything, with a code-ordering policy that always fails.\<close>

definition ex_externals :: externals where
  "ex_externals = \<lparr>AddSegment = (\<lambda>name vs rs ch r. (0x1000, r)),
     SetDataDirectoryEntry = (\<lambda>i b r. (True, r)),
     CreateRelocsSection = (\<lambda>r. (True, r)),
     FinalizeHeaders = (\<lambda>r. (True, r)),
     ReorderCode = (\<lambda>s r. (False, r)),
     PEFileWriter_WriteImage = (\<lambda>p r. True),
     AddOmapStreamToPdbFile = (\<lambda>i outp g t f. True),
     CoCreateGuid = Some 1,
     time_now = 0x12345678,
     alloc_ok = (\<lambda>n. True),
     TransferReferrers_ok = (\<lambda>old new g. True)\<rparr>"

text \<open>
  Two source blocks of 10 bytes at \<open>[0, 10)\<close> and \<open>[20, 30)\<close>, and a relinker whose new
  address space is still empty.
\<close>

definition ex_source_blocks :: "(range \<times> block_id) list" where
  "ex_source_blocks = [((0, 10), 1), ((20, 10), 2)]"

definition ex_empty_relinker :: relinker where
  "ex_empty_relinker =
     ex_relinker\<lparr>graph := (\<lambda>_. ex_block\<lparr>blk_size := 10\<rparr>), builder_address_space := []\<rparr>"

text \<open>
  A parsed header with the export slot (1), the relocation slot (5) and the debug slot (6)
  populated, and a builder that rejects assignments to slot 6.
\<close>

definition ex_PEHeader :: PEHeader where
  "ex_PEHeader = \<lparr>dos_header = Some 8, nt_headers = Some 7,
     data_directory = (\<lambda>i. if i = 1 then Some 21 else if i = 5 then Some 25
                            else if i = 6 then Some 26 else None)\<rparr>"

definition ex_rejecting_externals :: externals where
  "ex_rejecting_externals = ex_externals\<lparr>SetDataDirectoryEntry := (\<lambda>i b r. (i \<noteq> 6, r))\<rparr>"

text \<open>
  A graph for a whole run: block 7 is an NT-headers block of two sections, the first one
  code; block 26 is a debug directory of type CodeView whose payload is block 30.
\<close>

definition ex_run_graph :: block_graph where
  "ex_run_graph = (\<lambda>b.
     if b = 7 then \<lparr>blk_name = ''nt'', blk_size = 328,
                     blk_data = (replicate 328 0)[6 := 2, 284 := 0x20],
                     blk_references = [40 \<mapsto> \<lparr>referenced = 1, ref_offset = 0\<rparr>]\<rparr>
     else if b = 26 then \<lparr>blk_name = ''debug'', blk_size = 28,
                     blk_data = (replicate 28 0)[12 := 2],
                     blk_references = [20 \<mapsto> \<lparr>referenced = 30, ref_offset = 0\<rparr>]\<rparr>
     else if b = 30 then \<lparr>blk_name = ''cv'', blk_size = 28,
                     blk_data = replicate 28 0, blk_references = Map.empty\<rparr>
     else ex_block)"

definition ex_run_relinker :: relinker where
  "ex_run_relinker = ex_relinker\<lparr>graph := ex_run_graph\<rparr>"

text \<open>Collaborators whose code ordering and header finalization both fail.\<close>

definition ex_failing_externals :: externals where
  "ex_failing_externals = ex_externals\<lparr>FinalizeHeaders := (\<lambda>r. (False, r))\<rparr>"

text \<open>A debug directory of type CodeView that has no reference to a payload.\<close>

definition ex_bad_debug_relinker :: relinker where
  "ex_bad_debug_relinker =
     ex_relinker\<lparr>graph := (\<lambda>_. \<lparr>blk_name = ''debug'', blk_size = 28,
                     blk_data = (replicate 28 0)[12 := 2], blk_references = Map.empty\<rparr>)\<rparr>"

text \<open>
  Block 1 refers to the original NT headers (block 7) at offsets 0 and 8 and to the
  original DOS header (block 8) at offset 0; the new header blocks are 10 and 11.
\<close>

definition ex_ref_relinker :: relinker where
  "ex_ref_relinker =
     ex_relinker\<lparr>graph := (\<lambda>b. if b = 1
        then ex_block\<lparr>blk_references :=
               [0 \<mapsto> \<lparr>referenced = 7, ref_offset = 0\<rparr>,
                4 \<mapsto> \<lparr>referenced = 7, ref_offset = 8\<rparr>,
                8 \<mapsto> \<lparr>referenced = 8, ref_offset = 0\<rparr>]\<rparr>
        else ex_block)\<rparr>"

definition ex_finalized :: "(bool \<times> relinker) option" where
  "ex_finalized = FinalizeImageHeaders ex_externals ex_PEHeader ex_ref_relinker"

section \<open>The address-space invariant\<close>

text \<open>Insertion keeps the invariant, so every space built by insertions satisfies it.\<close>

lemma intersects_sym: "intersects a b = intersects b a"
  by (auto simp: intersects_def)

lemma set_insert_sorted: "set (insert_sorted e sp) = insert e (set sp)"
  by (induction sp) auto

lemma wf_space_insert_sorted:
  "wf_space sp \<Longrightarrow> \<forall>x \<in> set sp. \<not> intersects (fst e) (fst x) \<Longrightarrow>
   wf_space (insert_sorted e sp)"
proof (induction sp)
  case Nil then show ?case by simp
next
  case (Cons a sp)
  show ?case
  proof (cases "fst (fst e) \<le> fst (fst a)")
    case True
    with Cons.prems show ?thesis
      by (auto simp: list_all_iff)
  next
    case False
    then have "fst (fst a) \<le> fst (fst e)" by simp
    with False Cons show ?thesis
      by (auto simp: list_all_iff set_insert_sorted intersects_sym)
  qed
qed

lemma InsertBlock_wf_space:
  "wf_space sp \<Longrightarrow> InsertBlock a b sz sp = Some sp' \<Longrightarrow> wf_space sp'"
  by (auto simp: InsertBlock_def list_ex_iff split: if_splits intro!: wf_space_insert_sorted)

lemma CopyBlocks_wf_space:
  "wf_space (builder_address_space r) \<Longrightarrow>
   wf_space (builder_address_space (snd (CopyBlocks its start r)))"
  by (induction its arbitrary: start r)
     (auto simp: Let_def split: option.splits dest: InsertBlock_wf_space)

section \<open>Properties of the address translation\<close>

lemma AddOmapForBlockRange_append:
  "AddOmapForBlockRange original remapped omap =
     omap @ concat (map (block_entries remapped) original)"
  by (induction original arbitrary: omap) (auto simp: block_entries_def split: option.splits)

text \<open>
  Claim C6. Per-range translation (\<open>AddOmapForBlockRange\<close>) appends, for every block of
  the range in the order of the range, exactly one entry when the block is placed in the
  destination space, pairing the start of the block's source range with the block's
  address in the destination space, and no entry when the block is absent from the
  destination space.
\<close>

theorem AddOmapForBlockRange_entries:
  "AddOmapForBlockRange original remapped omap =
     omap @ concat (map (\<lambda>it. case GetAddressOf remapped (snd it) of
                                  Some to_addr \<Rightarrow> [(range_start (fst it), to_addr)]
                                | None \<Rightarrow> []) original)"
proof -
  have "block_entries remapped =
          (\<lambda>it. case GetAddressOf remapped (snd it) of
                   Some to_addr \<Rightarrow> [(range_start (fst it), to_addr)]
                 | None \<Rightarrow> [])"
    by (rule ext) (simp add: block_entries_def)
  then show ?thesis
    by (simp add: AddOmapForBlockRange_append)
qed

lemma AddOmapForAllSections_loop_eq:
  "AddOmapForAllSections_loop i n sections from to omap =
     (if i < n \<and> length sections < n then None
      else Some (omap @ concat (map (section_entries from to) (drop i (take n sections)))))"
proof (induction i n sections "from" to omap rule: AddOmapForAllSections_loop.induct)
  case (1 i n sections "from" to omap)
  show ?case
  proof (cases "i < n")
    case False
    then show ?thesis by (subst AddOmapForAllSections_loop.simps) simp
  next
    case True
    show ?thesis
    proof (cases "i < length sections")
      case False
      with True show ?thesis by (subst AddOmapForAllSections_loop.simps) simp
    next
      case inb: True
      have d: "drop i (take n sections) = sections ! i # drop (Suc i) (take n sections)"
      proof -
        have "i < length (take n sections)" using True inb by simp
        from Cons_nth_drop_Suc[OF this, symmetric] show ?thesis using True by simp
      qed
      show ?thesis
        using True inb "1.IH"[OF True inb]
        apply (subst AddOmapForAllSections_loop.simps)
        apply (simp only: d)
        apply (auto simp: AddOmapForBlockRange_append section_entries_def)
        done
    qed
  qed
qed

lemma AddOmapForAllSections_eq:
  "AddOmapForAllSections n sections from to omap =
     (if length sections < n then None
      else Some (omap @ concat (map (section_entries from to) (take n sections))))"
  by (simp add: AddOmapForAllSections_def AddOmapForAllSections_loop_eq)

lemmas ex_simps = WritePDBFile_omap_to_def WritePDBFile_omap_from_def ex_relinker_def
  ex_nt_headers_def ex_space_def mk_section_def AddOmapForAllSections_eq section_entries_def
  GetIntersectingBlocks_def intersects_def block_entries_def range_start_def

subsection \<open>Order of the table\<close>

lemma wf_space_sorted: "wf_space sp \<Longrightarrow> sorted (map (\<lambda>e. fst (fst e)) sp)"
  by (induction sp) (auto simp: list_all_iff)

lemma wf_space_filter: "wf_space sp \<Longrightarrow> wf_space (filter P sp)"
  by (induction sp) (auto simp: list_all_iff)

lemma block_entries_src:
  "x \<in> set (block_entries to it) \<Longrightarrow> fst x = fst (fst it)"
  by (auto simp: block_entries_def range_start_def split: option.splits)

lemma sorted_block_entries:
  "sorted (map (\<lambda>e. fst (fst e)) xs) \<Longrightarrow> sorted (map fst (concat (map (block_entries to) xs)))"
proof (induction xs)
  case Nil then show ?case by simp
next
  case (Cons a xs)
  have "\<forall>y \<in> set (concat (map (block_entries to) xs)). fst (fst a) \<le> fst y"
    using Cons.prems by (auto dest!: block_entries_src)
  moreover have "\<forall>x \<in> set (block_entries to a). fst x = fst (fst a)"
    by (auto dest: block_entries_src)
  moreover have "sorted (map fst (block_entries to a))"
    by (auto simp: block_entries_def split: option.splits)
  ultimately show ?case using Cons by (auto simp: sorted_append)
qed

lemma section_entries_sorted:
  "wf_space from \<Longrightarrow> sorted (map fst (section_entries from to s))"
  unfolding section_entries_def GetIntersectingBlocks_def
  by (intro sorted_block_entries wf_space_sorted wf_space_filter)

lemma wf_space_pair:
  "wf_space sp \<Longrightarrow> e1 \<in> set sp \<Longrightarrow> e2 \<in> set sp \<Longrightarrow>
   fst (fst e2) < fst (fst e1) \<Longrightarrow> \<not> intersects (fst e2) (fst e1)"
  by (induction sp) (auto simp: list_all_iff)

lemma cross_section_order:
  assumes wf: "wf_space from"
    and le: "unat (VirtualAddress s) + unat (VirtualSize s) \<le> unat (VirtualAddress t)"
    and x: "x \<in> set (section_entries from to s)"
    and y: "y \<in> set (section_entries from to t)"
  shows "fst x \<le> fst y"
proof -
  from x obtain e1 where e1: "e1 \<in> set from" "intersects (VirtualAddress s, VirtualSize s) (fst e1)"
      "fst x = fst (fst e1)"
    by (auto simp: section_entries_def GetIntersectingBlocks_def dest: block_entries_src)
  from y obtain e2 where e2: "e2 \<in> set from" "intersects (VirtualAddress t, VirtualSize t) (fst e2)"
      "fst y = fst (fst e2)"
    by (auto simp: section_entries_def GetIntersectingBlocks_def dest: block_entries_src)
  show ?thesis
  proof (rule ccontr)
    assume "\<not> fst x \<le> fst y"
    then have lt: "fst (fst e2) < fst (fst e1)" using e1 e2 by simp
    from wf_space_pair[OF wf e1(1) e2(1) lt] have ni: "\<not> intersects (fst e2) (fst e1)" .
    have "unat (fst (fst e2)) < unat (fst (fst e1))" using lt by (simp add: word_less_nat_alt)
    with ni e1(2) e2(2) le show False
      by (auto simp: intersects_def)
  qed
qed

lemma sorted_sections_entries:
  "wf_space from \<Longrightarrow> sections_ascending ss \<Longrightarrow>
   sorted (map fst (concat (map (section_entries from to) ss)))"
proof (induction ss)
  case Nil then show ?case by simp
next
  case (Cons s ss)
  have "\<forall>x \<in> set (section_entries from to s).
          \<forall>y \<in> set (concat (map (section_entries from to) ss)). fst x \<le> fst y"
    using Cons.prems by (auto simp: list_all_iff intro: cross_section_order)
  then show ?case using Cons by (auto simp: sorted_append section_entries_sorted)
qed

text \<open>
  Claim C5, as stated, fails: for section headers listed in descending address order the
  table of \<open>AddOmapForAllSections\<close> decreases. Two blocks at \<open>0x1000\<close> and \<open>0x2000\<close>,
  the section at \<open>0x2000\<close> listed before the section at \<open>0x1000\<close>.
\<close>

theorem AddOmapForAllSections_sorted_counterexample:
  "wf_space ex_space \<and>
   AddOmapForAllSections 2 [mk_section 0x2000 0x100 0, mk_section 0x1000 0x100 0]
     ex_space ex_space [] = Some [(0x2000, 0x2000), (0x1000, 0x1000)] \<and>
   \<not> sorted (map fst [(0x2000 :: 32 word, 0x2000 :: 32 word), (0x1000, 0x1000)])"
  by (simp add: ex_simps)

text \<open>
  Claim C5, amended. For a source address space that satisfies the address-space
  invariant and section headers that are listed in ascending address order with no
  section reaching into a later one, the table that \<open>AddOmapForAllSections\<close> produces
  from an empty table is non-decreasing in source address across all its entries.
\<close>

theorem AddOmapForAllSections_sorted:
  "wf_space from \<Longrightarrow> sections_ascending (take num_sections sections) \<Longrightarrow>
   AddOmapForAllSections num_sections sections from to [] = Some omap \<Longrightarrow>
   sorted (map fst omap)"
  by (auto simp: AddOmapForAllSections_eq sorted_sections_entries split: if_splits)

text \<open>Witness for C5: the two sections of the counterexample, in ascending order.\<close>

theorem AddOmapForAllSections_sorted_witness:
  "wf_space ex_space \<and>
   sections_ascending (take 2 [mk_section 0x1000 0x100 0, mk_section 0x2000 0x100 0]) \<and>
   AddOmapForAllSections 2 [mk_section 0x1000 0x100 0, mk_section 0x2000 0x100 0]
     ex_space ex_space [] = Some [(0x1000, 0x1000), (0x2000, 0x2000)] \<and>
   sorted (map fst [(0x1000 :: 32 word, 0x1000 :: 32 word), (0x2000, 0x2000)])"
proof -
  have a: "wf_space ex_space"
    by (simp add: ex_simps)
  have b: "sections_ascending (take 2 [mk_section 0x1000 0x100 0, mk_section 0x2000 0x100 0])"
    by (simp add: mk_section_def)
  have c: "AddOmapForAllSections 2 [mk_section 0x1000 0x100 0, mk_section 0x2000 0x100 0]
     ex_space ex_space [] = Some [(0x1000, 0x1000), (0x2000, 0x2000)]"
    by (simp add: ex_simps)
  from AddOmapForAllSections_sorted[OF a b c] a b c show ?thesis by blast
qed

subsection \<open>Direction of the two tables\<close>

lemma maps_between_block_entries:
  "e \<in> set from \<Longrightarrow> entry \<in> set (block_entries to e) \<Longrightarrow>
   \<exists>e \<in> set from. fst (fst e) = fst entry \<and> GetAddressOf to (snd e) = Some (snd entry)"
  by (rule bexI[of _ e]) (auto simp: block_entries_def range_start_def split: option.splits)

lemma maps_between_section_entries:
  "maps_between from to (section_entries from to s)"
  unfolding maps_between_def list_all_iff list_ex_iff
proof
  fix entry assume "entry \<in> set (section_entries from to s)"
  then obtain e where "e \<in> set from" "entry \<in> set (block_entries to e)"
    by (auto simp: section_entries_def GetIntersectingBlocks_def)
  then show "\<exists>e \<in> set from. fst (fst e) = fst entry \<and> GetAddressOf to (snd e) = Some (snd entry)"
    by (rule maps_between_block_entries)
qed

lemma maps_between_append:
  "maps_between a b (xs @ ys) = (maps_between a b xs \<and> maps_between a b ys)"
  by (simp add: maps_between_def)

lemma maps_between_sections:
  "maps_between from to (concat (map (section_entries from to) ss))"
  by (induction ss)
     (simp_all add: maps_between_append maps_between_section_entries, simp add: maps_between_def)

lemma block_entries_fun:
  "block_entries dst =
     (\<lambda>it. case GetAddressOf dst (snd it) of Some a \<Rightarrow> [(fst (fst it), a)] | None \<Rightarrow> [])"
  by (rule ext) (simp add: block_entries_def range_start_def split: option.splits)

lemma section_entries_fun:
  "section_entries src dst =
     (\<lambda>s. concat (map (\<lambda>it. case GetAddressOf dst (snd it) of
                                  Some a \<Rightarrow> [(fst (fst it), a)] | None \<Rightarrow> [])
                    (GetIntersectingBlocks src (VirtualAddress s) (VirtualSize s))))"
  by (rule ext) (simp only: section_entries_def block_entries_fun)

lemma translation_table_eq:
  "translation_table sections src dst = concat (map (section_entries src dst) sections)"
  by (simp only: translation_table_def section_entries_fun)

lemma ex_omap_to:
  "WritePDBFile_omap_to ex_relinker = Some [(0x5000, 0x1000), (0x6000, 0x3000)]"
  by (simp add: ex_simps)

lemma ex_omap_from:
  "WritePDBFile_omap_from ex_relinker = Some [(0x1000, 0x5000)]"
  by (simp add: ex_simps)

text \<open>
  Claim C4, as stated, fails in the direction it gives the tables: the "to" table is not
  a mapping from original addresses to new addresses. In the example image block 1 is at
  \<open>0x1000\<close> in the original space and at \<open>0x5000\<close> in the new one, and the "to" table
  holds the entry \<open>(0x5000, 0x1000)\<close>: its source is the new address.
\<close>

theorem WritePDBFile_directions_counterexample:
  "WritePDBFile_omap_to ex_relinker = Some [(0x5000, 0x1000), (0x6000, 0x3000)] \<and>
   \<not> maps_between (original_addr_space ex_relinker) (builder_address_space ex_relinker)
        [(0x5000, 0x1000), (0x6000, 0x3000)]"
  by (simp add: ex_simps maps_between_def)

text \<open>
  Claim C4, amended. \<open>WritePDBFile\<close> computes the "to" table by walking the new image's
  sections (all but the last one counted) over the new address space and looking each
  block up in the original space, so its entries map new addresses to original
  addresses; it computes the "from" table by walking the original image's sections (all
  but the last one counted) over the original space and looking each block up in the new
  space, so its entries map original addresses to new addresses. The two tables are not
  guaranteed to be exact inverses of each other: there is a relinker state where swapping
  the entries of the "to" table does not give the "from" table.
\<close>

theorem WritePDBFile_directions:
  "WritePDBFile_omap_to r =
     (if length (builder_section_headers r) <
           unat ((ucast (NumberOfSections (builder_nt_headers r)) :: 32 word) - 1)
      then None
      else Some (translation_table
                   (take (unat ((ucast (NumberOfSections (builder_nt_headers r)) :: 32 word) - 1))
                      (builder_section_headers r))
                   (builder_address_space r) (original_addr_space r))) \<and>
   WritePDBFile_omap_from r =
     (if length (original_sections r) < unat (original_num_sections r - 1)
      then None
      else Some (translation_table
                   (take (unat (original_num_sections r - 1)) (original_sections r))
                   (original_addr_space r) (builder_address_space r))) \<and>
   (WritePDBFile_omap_to r = Some omap_to \<longrightarrow>
      maps_between (builder_address_space r) (original_addr_space r) omap_to) \<and>
   (WritePDBFile_omap_from r = Some omap_from \<longrightarrow>
      maps_between (original_addr_space r) (builder_address_space r) omap_from) \<and>
   (\<exists>r' t f. WritePDBFile_omap_to r' = Some t \<and> WritePDBFile_omap_from r' = Some f \<and>
      map prod.swap t \<noteq> f)"
proof (intro conjI impI)
  show "WritePDBFile_omap_to r =
     (if length (builder_section_headers r) <
           unat ((ucast (NumberOfSections (builder_nt_headers r)) :: 32 word) - 1)
      then None
      else Some (translation_table
                   (take (unat ((ucast (NumberOfSections (builder_nt_headers r)) :: 32 word) - 1))
                      (builder_section_headers r))
                   (builder_address_space r) (original_addr_space r)))"
    by (simp add: WritePDBFile_omap_to_def AddOmapForAllSections_eq translation_table_eq)
  show "WritePDBFile_omap_from r =
     (if length (original_sections r) < unat (original_num_sections r - 1)
      then None
      else Some (translation_table
                   (take (unat (original_num_sections r - 1)) (original_sections r))
                   (original_addr_space r) (builder_address_space r)))"
    by (simp add: WritePDBFile_omap_from_def AddOmapForAllSections_eq translation_table_eq)
next
  assume "WritePDBFile_omap_to r = Some omap_to"
  then show "maps_between (builder_address_space r) (original_addr_space r) omap_to"
    by (auto simp: WritePDBFile_omap_to_def AddOmapForAllSections_eq maps_between_sections
        split: if_splits)
next
  assume "WritePDBFile_omap_from r = Some omap_from"
  then show "maps_between (original_addr_space r) (builder_address_space r) omap_from"
    by (auto simp: WritePDBFile_omap_from_def AddOmapForAllSections_eq maps_between_sections
        split: if_splits)
next
  have "map prod.swap [(0x5000 :: 32 word, 0x1000 :: 32 word), (0x6000, 0x3000)] \<noteq> [(0x1000, 0x5000)]"
    by simp
  with ex_omap_to ex_omap_from show "\<exists>r' t f. WritePDBFile_omap_to r' = Some t \<and>
      WritePDBFile_omap_from r' = Some f \<and> map prod.swap t \<noteq> f"
    by blast
qed

text \<open>Witness for C4: the example image, where both tables are computed.\<close>

theorem WritePDBFile_directions_witness:
  "WritePDBFile_omap_to ex_relinker = Some [(0x5000, 0x1000), (0x6000, 0x3000)] \<and>
   maps_between (builder_address_space ex_relinker) (original_addr_space ex_relinker)
     [(0x5000, 0x1000), (0x6000, 0x3000)] \<and>
   WritePDBFile_omap_from ex_relinker = Some [(0x1000, 0x5000)] \<and>
   maps_between (original_addr_space ex_relinker) (builder_address_space ex_relinker)
     [(0x1000, 0x5000)]"
  using WritePDBFile_directions[of ex_relinker "[(0x5000, 0x1000), (0x6000, 0x3000)]"
      "[(0x1000, 0x5000)]"] ex_omap_to ex_omap_from
  by blast

subsection \<open>The last section\<close>

lemma GetAddressOf_remove_block:
  "b' \<noteq> b \<Longrightarrow> GetAddressOf (remove_block b sp) b' = GetAddressOf sp b'"
  by (induction sp) (auto simp: remove_block_def)

lemma block_entries_remove_block:
  "snd it \<noteq> b \<Longrightarrow> block_entries (remove_block b to) it = block_entries to it"
  by (simp add: block_entries_def GetAddressOf_remove_block)

lemma section_entries_remove_block:
  assumes "\<forall>e \<in> set from. snd e = b \<longrightarrow> \<not> intersects (VirtualAddress s, VirtualSize s) (fst e)"
  shows "section_entries (remove_block b from) (remove_block b to) s = section_entries from to s"
proof -
  have f: "GetIntersectingBlocks (remove_block b from) (VirtualAddress s) (VirtualSize s)
         = GetIntersectingBlocks from (VirtualAddress s) (VirtualSize s)"
    unfolding GetIntersectingBlocks_def remove_block_def filter_filter
    by (rule filter_cong) (use assms in auto)
  have "map (block_entries (remove_block b to)) (GetIntersectingBlocks from (VirtualAddress s) (VirtualSize s))
      = map (block_entries to) (GetIntersectingBlocks from (VirtualAddress s) (VirtualSize s))"
    by (rule map_cong) (use assms in \<open>auto simp: GetIntersectingBlocks_def intro!: block_entries_remove_block\<close>)
  then show ?thesis unfolding section_entries_def f by (rule arg_cong)
qed

lemma sections_entries_remove_block:
  assumes "only_in_last_section from sections b"
  shows "concat (map (section_entries (remove_block b from) (remove_block b to)) (butlast sections))
       = concat (map (section_entries from to) (butlast sections))"
  by (rule arg_cong[where f = concat], rule map_cong)
     (use assms in \<open>auto simp: only_in_last_section_def list_all_iff intro!: section_entries_remove_block\<close>)

lemma take_minus_one_butlast:
  fixes n :: "32 word"
  shows "sections \<noteq> [] \<Longrightarrow> unat n = length sections \<Longrightarrow>
         take (unat (n - 1)) sections = butlast sections"
proof -
  assume a: "sections \<noteq> []" "unat n = length sections"
  then have "n \<noteq> 0" by (auto simp: unat_eq_0)
  then have "unat (n - 1) = unat n - 1" by (simp add: unat_minus_one)
  with a show ?thesis by (simp add: butlast_conv_take)
qed

lemma ex_omap_to_without_2:
  "WritePDBFile_omap_to (remove_from_spaces 2 ex_relinker) = Some [(0x5000, 0x1000)]"
  by (simp add: ex_simps remove_from_spaces_def remove_block_def)

text \<open>
  Claim C10, as stated, fails for a block that lies only in the final section of one
  image and that the other image places in another section. In the example image block 2
  lies only in the last section of the original image, and the new image has it in its
  second section: it gives the "to" table the entry \<open>(0x6000, 0x3000)\<close>, which is gone
  when the block is taken out.
\<close>

theorem WritePDBFile_excludes_last_section_counterexample:
  "only_in_last_section (original_addr_space ex_relinker) (original_sections ex_relinker) 2 \<and>
   WritePDBFile_omap_to ex_relinker = Some [(0x5000, 0x1000), (0x6000, 0x3000)] \<and>
   WritePDBFile_omap_to (remove_from_spaces 2 ex_relinker) = Some [(0x5000, 0x1000)]"
  using ex_omap_to ex_omap_to_without_2
  by (simp add: only_in_last_section_def ex_relinker_def mk_section_def intersects_def)

text \<open>
  Claim C10, amended. \<open>WritePDBFile\<close> passes the section count minus one in both
  directions, so for an image whose count is the number of its section headers (at least
  one) each table is built from all sections but the last. A block that the new image
  places only within its final section contributes no entry to the "to" table, and a
  block that the original image places only within its final section contributes no
  entry to the "from" table: the table is what it is with the block taken out of both
  spaces. (Such a block can still contribute to the other table, when the other image
  places it in another section.)
\<close>

theorem WritePDBFile_excludes_last_section:
  assumes "unat (NumberOfSections (builder_nt_headers r)) = length (builder_section_headers r)"
    and "builder_section_headers r \<noteq> []"
    and "unat (original_num_sections r) = length (original_sections r)"
    and "original_sections r \<noteq> []"
  shows "WritePDBFile_omap_to r =
           Some (concat (map (section_entries (builder_address_space r) (original_addr_space r))
                   (butlast (builder_section_headers r)))) \<and>
         WritePDBFile_omap_from r =
           Some (concat (map (section_entries (original_addr_space r) (builder_address_space r))
                   (butlast (original_sections r)))) \<and>
         (only_in_last_section (builder_address_space r) (builder_section_headers r) b \<longrightarrow>
          WritePDBFile_omap_to (remove_from_spaces b r) = WritePDBFile_omap_to r) \<and>
         (only_in_last_section (original_addr_space r) (original_sections r) b \<longrightarrow>
          WritePDBFile_omap_from (remove_from_spaces b r) = WritePDBFile_omap_from r)"
proof -
  let ?n = "ucast (NumberOfSections (builder_nt_headers r)) :: 32 word"
  have "unat (NumberOfSections (builder_nt_headers r)) < 2 ^ 16"
    using unsigned_less[of "NumberOfSections (builder_nt_headers r)"] by simp
  then have "unat ?n = unat (NumberOfSections (builder_nt_headers r))"
    by (simp add: unsigned_ucast_eq take_bit_nat_eq_self)
  then have un: "unat ?n = length (builder_section_headers r)"
    using assms(1) by simp
  have t1: "take (unat (?n - 1)) (builder_section_headers r) = butlast (builder_section_headers r)"
    using assms(2) un by (rule take_minus_one_butlast)
  have l1: "\<not> length (builder_section_headers r) < unat (?n - 1)"
    using un assms(2)
    by (metis diff_le_self linorder_not_less unat_minus_one length_0_conv unat_eq_0)
  have t2: "take (unat (original_num_sections r - 1)) (original_sections r) = butlast (original_sections r)"
    using assms(4,3) by (rule take_minus_one_butlast)
  have l2: "\<not> length (original_sections r) < unat (original_num_sections r - 1)"
    using assms(3,4)
    by (metis diff_le_self linorder_not_less unat_minus_one length_0_conv unat_eq_0)
  have a: "WritePDBFile_omap_to r =
           Some (concat (map (section_entries (builder_address_space r) (original_addr_space r))
                   (butlast (builder_section_headers r))))"
    using l1 by (simp add: WritePDBFile_omap_to_def AddOmapForAllSections_eq t1)
  have b: "WritePDBFile_omap_from r =
           Some (concat (map (section_entries (original_addr_space r) (builder_address_space r))
                   (butlast (original_sections r))))"
    using l2 by (simp add: WritePDBFile_omap_from_def AddOmapForAllSections_eq t2)
  have c: "WritePDBFile_omap_to (remove_from_spaces b r) = WritePDBFile_omap_to r"
    if "only_in_last_section (builder_address_space r) (builder_section_headers r) b"
    using l1
    by (simp add: WritePDBFile_omap_to_def AddOmapForAllSections_eq t1 remove_from_spaces_def
        sections_entries_remove_block[OF that])
  have d: "WritePDBFile_omap_from (remove_from_spaces b r) = WritePDBFile_omap_from r"
    if "only_in_last_section (original_addr_space r) (original_sections r) b"
    using l2
    by (simp add: WritePDBFile_omap_from_def AddOmapForAllSections_eq t2 remove_from_spaces_def
        sections_entries_remove_block[OF that])
  from a b c d show ?thesis by blast
qed

text \<open>
  Witness for C10: in the example image block 3 lies in the last section of the new image
  only and is not placed in the original space.
\<close>

theorem WritePDBFile_excludes_last_section_witness:
  "unat (NumberOfSections (builder_nt_headers ex_relinker)) = length (builder_section_headers ex_relinker) \<and>
   builder_section_headers ex_relinker \<noteq> [] \<and>
   unat (original_num_sections ex_relinker) = length (original_sections ex_relinker) \<and>
   original_sections ex_relinker \<noteq> [] \<and>
   only_in_last_section (builder_address_space ex_relinker) (builder_section_headers ex_relinker) 3 \<and>
   only_in_last_section (original_addr_space ex_relinker) (original_sections ex_relinker) 3 \<and>
   WritePDBFile_omap_to (remove_from_spaces 3 ex_relinker) = WritePDBFile_omap_to ex_relinker \<and>
   WritePDBFile_omap_from (remove_from_spaces 3 ex_relinker) = WritePDBFile_omap_from ex_relinker"
proof -
  have a: "unat (NumberOfSections (builder_nt_headers ex_relinker)) = length (builder_section_headers ex_relinker)"
    by (simp add: ex_relinker_def ex_nt_headers_def)
  have b: "builder_section_headers ex_relinker \<noteq> []"
    by (simp add: ex_relinker_def)
  have c: "unat (original_num_sections ex_relinker) = length (original_sections ex_relinker)"
    by (simp add: ex_relinker_def)
  have d: "original_sections ex_relinker \<noteq> []"
    by (simp add: ex_relinker_def)
  have e: "only_in_last_section (builder_address_space ex_relinker) (builder_section_headers ex_relinker) 3"
    by (simp add: only_in_last_section_def ex_relinker_def mk_section_def intersects_def)
  have f: "only_in_last_section (original_addr_space ex_relinker) (original_sections ex_relinker) 3"
    by (simp add: only_in_last_section_def ex_relinker_def mk_section_def intersects_def)
  from WritePDBFile_excludes_last_section[OF a b c d, of 3] a b c d e f show ?thesis
    by blast
qed

section \<open>Properties of the section copy\<close>

lemma placements_Nil: "placements g [] start = []"
  by (simp add: placements_def)

lemma placements_Cons:
  "placements g (it # rest) start =
     (start, snd it) # placements g rest (start + blk_size (g (snd it)))"
proof -
  have "[0..<length (it # rest)] = 0 # map Suc [0..<length rest]"
    by (simp add: upt_conv_Cons map_Suc_upt del: upt_Suc)
  then show ?thesis
    by (simp add: placements_def destination_def add.assoc del: upt_Suc)
qed

lemma destination_Suc:
  "i < length its \<Longrightarrow>
   destination g its start (Suc i) = destination g its start i + blk_size (g (snd (its ! i)))"
  by (simp add: destination_def take_Suc_conv_app_nth)

lemma CopyBlocks_run:
  "\<exists>k \<le> length its.
     (fst (CopyBlocks its start r) \<longleftrightarrow> k = length its) \<and>
     (\<exists>sp. insert_all (graph r) (take k (placements (graph r) its start)) (builder_address_space r) = Some sp \<and>
        snd (CopyBlocks its start r) = r\<lparr>builder_address_space := sp\<rparr> \<and>
        (k < length its \<longrightarrow>
           InsertBlock (destination (graph r) its start k) (snd (its ! k))
             (blk_size (graph r (snd (its ! k)))) sp = None))"
proof (induction its arbitrary: start r)
  case Nil
  show ?case by (simp add: placements_Nil)
next
  case (Cons it rest)
  let ?sz = "blk_size (graph r (snd it))"
  show ?case
  proof (cases "InsertBlock start (snd it) ?sz (builder_address_space r)")
    case None
    then show ?thesis
      by (intro exI[of _ 0]) (simp add: destination_def)
  next
    case (Some sp1)
    let ?r1 = "r\<lparr>builder_address_space := sp1\<rparr>"
    from Cons.IH[of "start + ?sz" ?r1] obtain k sp where k: "k \<le> length rest"
      "fst (CopyBlocks rest (start + ?sz) ?r1) \<longleftrightarrow> k = length rest"
      "insert_all (graph r) (take k (placements (graph r) rest (start + ?sz))) sp1 = Some sp"
      "snd (CopyBlocks rest (start + ?sz) ?r1) = r\<lparr>builder_address_space := sp\<rparr>"
      "k < length rest \<longrightarrow>
           InsertBlock (destination (graph r) rest (start + ?sz) k) (snd (rest ! k))
             (blk_size (graph r (snd (rest ! k)))) sp = None"
      by auto
    have d: "destination (graph r) (it # rest) start (Suc k) = destination (graph r) rest (start + ?sz) k"
      by (simp add: destination_def add.assoc)
    show ?thesis
      using k Some
      by (intro exI[of _ "Suc k"]) (simp add: placements_Cons d)
  qed
qed

text \<open>
  Claim C3. \<open>CopyBlocks\<close> places the blocks of the range contiguously and in source
  order: the first destination is the start address and each next destination is the
  previous one plus the size of the previous block (in the 32-bit arithmetic of
  \<open>RelativeAddress\<close>), whatever the source addresses are. It inserts the blocks up to
  the first collision and nothing after it: the new address space is the one with the
  first \<open>k\<close> blocks inserted at their destinations, the result is success exactly when
  \<open>k\<close> is the number of blocks, and otherwise the insertion of block \<open>k\<close> collides.
  A failure of \<open>CopyBlocks\<close> is a failure of \<open>CopySection\<close>.
\<close>

theorem CopyBlocks_contiguous:
  "destination (graph r) its start 0 = start \<and>
   (\<forall>i. Suc i < length its \<longrightarrow>
      destination (graph r) its start (Suc i) =
        destination (graph r) its start i + blk_size (graph r (snd (its ! i)))) \<and>
   (\<exists>k \<le> length its.
      (fst (CopyBlocks its start r) \<longleftrightarrow> k = length its) \<and>
      (\<exists>sp. insert_all (graph r) (take k (placements (graph r) its start))
               (builder_address_space r) = Some sp \<and>
         snd (CopyBlocks its start r) = r\<lparr>builder_address_space := sp\<rparr> \<and>
         (k < length its \<longrightarrow>
            InsertBlock (destination (graph r) its start k) (snd (its ! k))
              (blk_size (graph r (snd (its ! k)))) sp = None))) \<and>
   (\<not> fst (CopyBlocks
             (GetIntersectingBlocks
                (original_addr_space (snd (AddSegment ext (section_name section_hdr)
                   (VirtualSize section_hdr) (SizeOfRawData section_hdr)
                   (Characteristics section_hdr) r0)))
                (VirtualAddress section_hdr) (VirtualSize section_hdr))
             (fst (AddSegment ext (section_name section_hdr) (VirtualSize section_hdr)
                (SizeOfRawData section_hdr) (Characteristics section_hdr) r0))
             (snd (AddSegment ext (section_name section_hdr) (VirtualSize section_hdr)
                (SizeOfRawData section_hdr) (Characteristics section_hdr) r0))) \<longrightarrow>
    \<not> fst (CopySection ext section_hdr r0))"
proof (intro conjI)
  show "destination (graph r) its start 0 = start"
    by (simp add: destination_def)
  show "\<forall>i. Suc i < length its \<longrightarrow>
      destination (graph r) its start (Suc i) =
        destination (graph r) its start i + blk_size (graph r (snd (its ! i)))"
    by (simp add: destination_Suc)
  show "\<exists>k \<le> length its.
      (fst (CopyBlocks its start r) \<longleftrightarrow> k = length its) \<and>
      (\<exists>sp. insert_all (graph r) (take k (placements (graph r) its start))
               (builder_address_space r) = Some sp \<and>
         snd (CopyBlocks its start r) = r\<lparr>builder_address_space := sp\<rparr> \<and>
         (k < length its \<longrightarrow>
            InsertBlock (destination (graph r) its start k) (snd (its ! k))
              (blk_size (graph r (snd (its ! k)))) sp = None))"
    by (rule CopyBlocks_run)
  show "\<not> fst (CopyBlocks
             (GetIntersectingBlocks
                (original_addr_space (snd (AddSegment ext (section_name section_hdr)
                   (VirtualSize section_hdr) (SizeOfRawData section_hdr)
                   (Characteristics section_hdr) r0)))
                (VirtualAddress section_hdr) (VirtualSize section_hdr))
             (fst (AddSegment ext (section_name section_hdr) (VirtualSize section_hdr)
                (SizeOfRawData section_hdr) (Characteristics section_hdr) r0))
             (snd (AddSegment ext (section_name section_hdr) (VirtualSize section_hdr)
                (SizeOfRawData section_hdr) (Characteristics section_hdr) r0))) \<longrightarrow>
    \<not> fst (CopySection ext section_hdr r0)"
    by (simp add: CopySection_def Let_def split_beta)
qed

text \<open>
  Witness for C3: source blocks of 10 bytes at \<open>[0, 10)\<close> and \<open>[20, 30)\<close> copied to
  \<open>0x1000\<close> land at \<open>0x1000\<close> and \<open>0x100A\<close>; the gap is not reproduced.
\<close>

theorem CopyBlocks_contiguous_witness:
  "Suc 0 < length ex_source_blocks \<and>
   destination (graph ex_empty_relinker) ex_source_blocks 0x1000 (Suc 0) =
     destination (graph ex_empty_relinker) ex_source_blocks 0x1000 0 +
       blk_size (graph ex_empty_relinker (snd (ex_source_blocks ! 0))) \<and>
   destination (graph ex_empty_relinker) ex_source_blocks 0x1000 (Suc 0) = 0x100A \<and>
   fst (CopyBlocks ex_source_blocks 0x1000 ex_empty_relinker) \<and>
   builder_address_space (snd (CopyBlocks ex_source_blocks 0x1000 ex_empty_relinker)) =
     [((0x1000, 10), 1), ((0x100A, 10), 2)]"
proof -
  have a: "Suc 0 < length ex_source_blocks"
    by (simp add: ex_source_blocks_def)
  from CopyBlocks_contiguous[of ex_empty_relinker ex_source_blocks "0x1000"] a
  have b: "destination (graph ex_empty_relinker) ex_source_blocks 0x1000 (Suc 0) =
     destination (graph ex_empty_relinker) ex_source_blocks 0x1000 0 +
       blk_size (graph ex_empty_relinker (snd (ex_source_blocks ! 0)))"
    by blast
  have c: "destination (graph ex_empty_relinker) ex_source_blocks 0x1000 (Suc 0) = 0x100A"
    by (simp add: destination_def ex_source_blocks_def ex_empty_relinker_def ex_block_def)
  have d: "CopyBlocks ex_source_blocks 0x1000 ex_empty_relinker =
     (True, ex_empty_relinker\<lparr>builder_address_space := [((0x1000, 10), 1), ((0x100A, 10), 2)]\<rparr>)"
    by (simp add: ex_source_blocks_def ex_empty_relinker_def ex_block_def InsertBlock_def
        intersects_def Let_def)
  from a b c d show ?thesis by simp
qed

text \<open>
  The same copy into a space that already holds block 9 at \<open>[0x100C, 0x1010)\<close>: the
  first block is inserted, the second collides, and the copy stops there with failure.
\<close>

lemma CopyBlocks_collision_example:
  "CopyBlocks ex_source_blocks 0x1000
     (ex_empty_relinker\<lparr>builder_address_space := [((0x100C, 4), 9)]\<rparr>) =
   (False, ex_empty_relinker\<lparr>builder_address_space :=
             [((0x1000, 10), 1), ((0x100C, 4), 9)]\<rparr>)"
  by (simp add: ex_source_blocks_def ex_empty_relinker_def ex_block_def InsertBlock_def
      intersects_def Let_def)

section \<open>Properties of the header bootstrap\<close>

lemma unat_nt_headers_size:
  fixes n :: "16 word"
  shows "unat (sizeof_IMAGE_NT_HEADERS + (ucast n :: 32 word) * sizeof_IMAGE_SECTION_HEADER)
       = 248 + unat n * 40"
proof -
  have n: "unat n < 2 ^ 16" using unsigned_less[of n] by simp
  then have u: "unat (ucast n :: 32 word) = unat n"
    by (simp add: unsigned_ucast_eq take_bit_nat_eq_self)
  have m: "unat ((ucast n :: 32 word) * 40) = unat n * 40"
    using n by (simp add: unat_word_ariths u)
  show ?thesis
    using n by (simp add: sizeof_IMAGE_NT_HEADERS_def sizeof_IMAGE_SECTION_HEADER_def
        unat_word_ariths(1) m)
qed

lemma ex_header_block_count:
  "NumberOfSections (nt_headers_of (blk_data (ex_header_block n))) = ucast n"
  by (simp add: nt_headers_of_def ex_header_block_def le16_def)

text \<open>
  Claim C7. \<open>Initialize\<close> returns failure for every header block that is absent, and
  for every header block whose size differs from the fixed NT-header size (248) plus the
  declared section count times the section-header size (40); so does
  \<open>Relinker::Initialize\<close>, which begins with it.
\<close>

theorem Initialize_rejects_bad_size:
  assumes "original_nt_headers = None \<or>
           (\<exists>p. original_nt_headers = Some p \<and>
              unat (blk_size (graph r p)) \<noteq>
                248 + unat (NumberOfSections (nt_headers_of (blk_data (graph r p)))) * 40)"
  shows "\<not> fst (Initialize original_nt_headers r) \<and>
         \<not> fst (Relinker_Initialize ext original_nt_headers r)"
proof -
  have "\<not> fst (Initialize original_nt_headers r)"
  proof (cases original_nt_headers)
    case None
    then show ?thesis by (simp add: Initialize_def)
  next
    case (Some p)
    with assms have ne: "unat (blk_size (graph r p)) \<noteq>
        248 + unat (NumberOfSections (nt_headers_of (blk_data (graph r p)))) * 40"
      by simp
    have "blk_size (graph r p) \<noteq> sizeof_IMAGE_NT_HEADERS +
        (ucast (NumberOfSections (nt_headers_of (blk_data (graph r p)))) :: 32 word) *
          sizeof_IMAGE_SECTION_HEADER"
      using ne unat_nt_headers_size by metis
    then show ?thesis
      using Some by (auto simp: Initialize_def Let_def split: option.splits)
  qed
  then show ?thesis
    by (auto simp: Relinker_Initialize_def split: prod.splits bool.splits option.splits)
qed

text \<open>
  Witness for C7: a header block of 288 bytes that declares two sections (328 bytes
  would be needed) is rejected.
\<close>

theorem Initialize_rejects_bad_size_witness:
  "unat (blk_size (graph (ex_relinker\<lparr>graph := (\<lambda>_. ex_header_block 2)\<rparr>) 7)) \<noteq>
     248 + unat (NumberOfSections (nt_headers_of (blk_data
        (graph (ex_relinker\<lparr>graph := (\<lambda>_. ex_header_block 2)\<rparr>) 7)))) * 40 \<and>
   \<not> fst (Initialize (Some 7) (ex_relinker\<lparr>graph := (\<lambda>_. ex_header_block 2)\<rparr>)) \<and>
   \<not> fst (Relinker_Initialize ex_externals (Some 7)
            (ex_relinker\<lparr>graph := (\<lambda>_. ex_header_block 2)\<rparr>))"
proof -
  have h: "unat (blk_size (graph (ex_relinker\<lparr>graph := (\<lambda>_. ex_header_block 2)\<rparr>) 7)) \<noteq>
     248 + unat (NumberOfSections (nt_headers_of (blk_data
        (graph (ex_relinker\<lparr>graph := (\<lambda>_. ex_header_block 2)\<rparr>) 7)))) * 40"
    by (simp add: ex_header_block_count) (simp add: ex_header_block_def)
  then show ?thesis
    using Initialize_rejects_bad_size[of "Some 7"
        "ex_relinker\<lparr>graph := (\<lambda>_. ex_header_block 2)\<rparr>" ex_externals]
    by simp
qed

text \<open>The same block declaring one section is accepted: the check is not always a failure.\<close>

lemma Initialize_accepts_example:
  "fst (Initialize (Some 7) (ex_relinker\<lparr>graph := (\<lambda>_. ex_header_block 1)\<rparr>))"
  by (simp add: Initialize_def Let_def ex_header_block_count)
     (simp add: ex_header_block_def data_size_def sizeof_IMAGE_NT_HEADERS_def
       sizeof_IMAGE_SECTION_HEADER_def GetReference_def entrypoint_offset_def)

subsection \<open>The data directory\<close>

lemma CopyDataDirectory_loop_eq:
  "CopyDataDirectory_loop ext hdr i r =
     assign_all ext (concat (map (copied_entry hdr) [i..<IMAGE_NUMBEROF_DIRECTORY_ENTRIES])) r"
proof (induction ext hdr i r rule: CopyDataDirectory_loop.induct)
  case (1 ext hdr i r)
  let ?rest = "concat (map (copied_entry hdr) [Suc i..<IMAGE_NUMBEROF_DIRECTORY_ENTRIES])"
  show ?case
  proof (cases "i < IMAGE_NUMBEROF_DIRECTORY_ENTRIES")
    case False
    then show ?thesis by (subst CopyDataDirectory_loop.simps) simp
  next
    case True
    then have "[i..<IMAGE_NUMBEROF_DIRECTORY_ENTRIES] = i # [Suc i..<IMAGE_NUMBEROF_DIRECTORY_ENTRIES]"
      by (simp add: upt_conv_Cons)
    then have u: "concat (map (copied_entry hdr) [i..<IMAGE_NUMBEROF_DIRECTORY_ENTRIES])
                = copied_entry hdr i @ ?rest"
      by simp
    show ?thesis
    proof (cases "data_directory hdr i")
      case None
      then have ce: "copied_entry hdr i = []" by (simp add: copied_entry_def)
      have L: "CopyDataDirectory_loop ext hdr i r = CopyDataDirectory_loop ext hdr (Suc i) r"
        by (subst CopyDataDirectory_loop.simps) (simp add: True None)
      show ?thesis unfolding L u ce using "1.IH"(1)[OF True None] by simp
    next
      case (Some block)
      show ?thesis
      proof (cases "i \<noteq> IMAGE_DIRECTORY_ENTRY_BASERELOC")
        case False
        with Some have ce: "copied_entry hdr i = []" by (simp add: copied_entry_def)
        have L: "CopyDataDirectory_loop ext hdr i r = CopyDataDirectory_loop ext hdr (Suc i) r"
          by (subst CopyDataDirectory_loop.simps) (use True Some False in simp)
        show ?thesis unfolding L u ce using "1.IH"(3)[OF True Some False] by simp
      next
        case ne: True
        from ne Some have ce: "copied_entry hdr i = [(i, block)]" by (simp add: copied_entry_def)
        obtain ok r' where s: "SetDataDirectoryEntry ext i block r = (ok, r')"
          by (cases "SetDataDirectoryEntry ext i block r")
        show ?thesis
        proof (cases ok)
          case False
          have L: "CopyDataDirectory_loop ext hdr i r = (False, r')"
            by (subst CopyDataDirectory_loop.simps) (use True Some ne s False in simp)
          show ?thesis unfolding L u ce using s False by simp
        next
          case ok: True
          have L: "CopyDataDirectory_loop ext hdr i r = CopyDataDirectory_loop ext hdr (Suc i) r'"
            by (subst CopyDataDirectory_loop.simps) (use True Some ne s ok in simp)
          show ?thesis unfolding L u ce
            using "1.IH"(2)[OF True Some ne s[symmetric, unfolded ok]] s ok by simp
        qed
      qed
    qed
  qed
qed

lemma assign_all_rejected:
  "e \<in> set es \<Longrightarrow> \<forall>r'. \<not> fst (SetDataDirectoryEntry ext (fst e) (snd e) r') \<Longrightarrow>
   \<not> fst (assign_all ext es r)"
proof (induction es arbitrary: r)
  case Nil then show ?case by simp
next
  case (Cons a es)
  show ?case
  proof (cases "SetDataDirectoryEntry ext (fst a) (snd a) r")
    case (Pair ok r')
    show ?thesis
    proof (cases ok)
      case False
      with Pair show ?thesis by simp
    next
      case True
      with Pair Cons.prems have "e \<noteq> a" by (metis fst_conv)
      with Cons Pair True show ?thesis by simp
    qed
  qed
qed

lemma copied_entries_iff:
  "(i, b) \<in> set (copied_entries hdr) \<longleftrightarrow>
     i < IMAGE_NUMBEROF_DIRECTORY_ENTRIES \<and> i \<noteq> IMAGE_DIRECTORY_ENTRY_BASERELOC \<and>
     data_directory hdr i = Some b"
  by (auto simp: copied_entries_def copied_entry_def split: option.splits if_splits)

text \<open>
  Claim C8. \<open>CopyDataDirectory\<close> assigns, in index order and each at its own index, the
  populated data-directory entries other than the relocation slot: an entry is assigned
  exactly when its index is below 16, is not the relocation slot and the entry is not
  null, so the block of the relocation slot is never copied, populated or not. The run
  stops at the first rejected assignment, and it returns failure when the builder rejects
  the assignment of any of these entries.
\<close>

theorem CopyDataDirectory_copies:
  "CopyDataDirectory ext original_header r =
     assign_all ext (copied_entries original_header) r \<and>
   (\<forall>i b. (i, b) \<in> set (copied_entries original_header) \<longleftrightarrow>
      i < IMAGE_NUMBEROF_DIRECTORY_ENTRIES \<and> i \<noteq> IMAGE_DIRECTORY_ENTRY_BASERELOC \<and>
      data_directory original_header i = Some b) \<and>
   (\<forall>i b. (i, b) \<in> set (copied_entries original_header) \<and>
      (\<forall>r'. \<not> fst (SetDataDirectoryEntry ext i b r')) \<longrightarrow>
      \<not> fst (CopyDataDirectory ext original_header r))"
proof (intro conjI allI impI)
  show c: "CopyDataDirectory ext original_header r =
     assign_all ext (copied_entries original_header) r"
    by (simp add: CopyDataDirectory_def CopyDataDirectory_loop_eq copied_entries_def)
  show "(i, b) \<in> set (copied_entries original_header) \<longleftrightarrow>
      i < IMAGE_NUMBEROF_DIRECTORY_ENTRIES \<and> i \<noteq> IMAGE_DIRECTORY_ENTRY_BASERELOC \<and>
      data_directory original_header i = Some b" for i b
    by (rule copied_entries_iff)
  show "\<not> fst (CopyDataDirectory ext original_header r)"
    if "(i, b) \<in> set (copied_entries original_header) \<and>
        (\<forall>r'. \<not> fst (SetDataDirectoryEntry ext i b r'))" for i b
    using that assign_all_rejected[of "(i, b)" "copied_entries original_header" ext r]
    by (simp add: c)
qed

text \<open>
  Witness for C8: with slots 1, 5 and 6 populated, slots 1 and 6 are the entries copied;
  the copy succeeds with a builder that accepts them and fails with one that rejects
  slot 6.
\<close>

theorem CopyDataDirectory_copies_witness:
  "copied_entries ex_PEHeader = [(1, 21), (6, 26)] \<and>
   fst (CopyDataDirectory ex_externals ex_PEHeader ex_relinker) \<and>
   (6, 26) \<in> set (copied_entries ex_PEHeader) \<and>
   (\<forall>r'. \<not> fst (SetDataDirectoryEntry ex_rejecting_externals 6 26 r')) \<and>
   \<not> fst (CopyDataDirectory ex_rejecting_externals ex_PEHeader ex_relinker)"
proof -
  have "[0..<IMAGE_NUMBEROF_DIRECTORY_ENTRIES] = [0, 1, 2, 3, 4, 5, 6, 7, 8, 9, 10, 11, 12, 13, 14, 15]"
    unfolding IMAGE_NUMBEROF_DIRECTORY_ENTRIES_def by (simp add: upt_rec)
  then have a: "copied_entries ex_PEHeader = [(1, 21), (6, 26)]"
    by (simp add: copied_entries_def copied_entry_def ex_PEHeader_def
        IMAGE_DIRECTORY_ENTRY_BASERELOC_def)
  have b: "fst (CopyDataDirectory ex_externals ex_PEHeader ex_relinker)"
    using CopyDataDirectory_copies[of ex_externals ex_PEHeader ex_relinker]
    by (simp add: a ex_externals_def)
  have c: "\<forall>r'. \<not> fst (SetDataDirectoryEntry ex_rejecting_externals 6 26 r')"
    by (simp add: ex_rejecting_externals_def)
  have d: "(6, 26) \<in> set (copied_entries ex_PEHeader)"
    by (simp add: a)
  from CopyDataDirectory_copies[of ex_rejecting_externals ex_PEHeader ex_relinker] c d
  have "\<not> fst (CopyDataDirectory ex_rejecting_externals ex_PEHeader ex_relinker)"
    by blast
  with a b c d show ?thesis by blast
qed

subsection \<open>Header finalization\<close>

lemma TransferReferrers_references:
  "TransferReferrers ext old off new g = Some g' \<Longrightarrow>
   blk_references (g' b) src = map_option (retarget old off new) (blk_references (g b) src)"
  by (auto simp: TransferReferrers_def split: if_splits)

lemma retarget_referenced:
  "referenced (retarget old off new ref) = (if referenced ref = old then new else referenced ref)"
  by (simp add: retarget_def)

lemma retarget_at:
  "retarget old 0 new \<lparr>referenced = t, ref_offset = 0\<rparr> =
     \<lparr>referenced = (if t = old then new else t), ref_offset = 0\<rparr>"
  by (simp add: retarget_def)

lemma FinalizeImageHeaders_success:
  assumes "FinalizeImageHeaders ext hdr r = Some (True, r')"
  obtains dos nt g3 where
    "dos_header hdr = Some dos" "nt_headers hdr = Some nt"
    "TransferReferrers ext dos 0 (builder_dos_header_block (builder_finalized ext r))
       (graph (builder_finalized ext r)) = Some g3"
    "TransferReferrers ext nt 0 (builder_nt_headers_block (builder_finalized ext r)) g3
       = Some (graph r')"
    "r' = (builder_finalized ext r)\<lparr>graph := graph r'\<rparr>"
  using assms
  by (fastforce simp: FinalizeImageHeaders_def builder_finalized_def
      split: prod.splits bool.splits option.splits)

lemma ex_finalized_value:
  "\<exists>g. ex_finalized = Some (True, ex_ref_relinker\<lparr>graph := g\<rparr>) \<and>
        blk_references (g 1) 0 = Some \<lparr>referenced = 11, ref_offset = 0\<rparr> \<and>
        blk_references (g 1) 4 = Some \<lparr>referenced = 11, ref_offset = 8\<rparr> \<and>
        blk_references (g 1) 8 = Some \<lparr>referenced = 10, ref_offset = 0\<rparr>"
  by (simp add: ex_finalized_def FinalizeImageHeaders_def ex_externals_def ex_PEHeader_def
      TransferReferrers_def ex_ref_relinker_def ex_relinker_def retarget_def)

text \<open>
  Claim C2. After \<open>FinalizeImageHeaders\<close> returns success, the newly built header
  blocks being blocks other than the original DOS-header and NT-header blocks (which are
  two blocks), no reference in the block graph still targets the original DOS-header
  block or the original NT-header block, at any offset; and every reference that pointed
  at offset 0 of one of them, in the graph as the builder's header finalization left it,
  points at offset 0 of the corresponding newly built header block.
\<close>

theorem FinalizeImageHeaders_retargets:
  assumes ok: "FinalizeImageHeaders ext original_header r = Some (True, r')"
    and dos: "dos_header original_header = Some dos"
    and nt: "nt_headers original_header = Some nt"
    and distinct: "dos \<noteq> nt"
      "builder_dos_header_block r' \<noteq> dos" "builder_dos_header_block r' \<noteq> nt"
      "builder_nt_headers_block r' \<noteq> dos" "builder_nt_headers_block r' \<noteq> nt"
  shows "(\<forall>b src ref. reference_at b src r' = Some ref \<longrightarrow>
            referenced ref \<noteq> dos \<and> referenced ref \<noteq> nt) \<and>
         (\<forall>b src. reference_at b src (builder_finalized ext r) =
                     Some \<lparr>referenced = dos, ref_offset = 0\<rparr> \<longrightarrow>
            reference_at b src r' =
              Some \<lparr>referenced = builder_dos_header_block r', ref_offset = 0\<rparr>) \<and>
         (\<forall>b src. reference_at b src (builder_finalized ext r) =
                     Some \<lparr>referenced = nt, ref_offset = 0\<rparr> \<longrightarrow>
            reference_at b src r' =
              Some \<lparr>referenced = builder_nt_headers_block r', ref_offset = 0\<rparr>)"
proof -
  let ?r2 = "builder_finalized ext r"
  from ok obtain dos' nt' g3 where s:
    "dos_header original_header = Some dos'" "nt_headers original_header = Some nt'"
    "TransferReferrers ext dos' 0 (builder_dos_header_block ?r2) (graph ?r2) = Some g3"
    "TransferReferrers ext nt' 0 (builder_nt_headers_block ?r2) g3 = Some (graph r')"
    "r' = ?r2\<lparr>graph := graph r'\<rparr>"
    by (rule FinalizeImageHeaders_success)
  from s(1,2) dos nt have [simp]: "dos' = dos" "nt' = nt" by simp_all
  have nd: "builder_dos_header_block ?r2 = builder_dos_header_block r'"
    and nn: "builder_nt_headers_block ?r2 = builder_nt_headers_block r'"
    using arg_cong[OF s(5), of builder_dos_header_block]
      arg_cong[OF s(5), of builder_nt_headers_block] by simp_all
  have refs: "reference_at b src r' =
      map_option (retarget nt 0 (builder_nt_headers_block r') \<circ>
                  retarget dos 0 (builder_dos_header_block r'))
        (reference_at b src ?r2)" for b src
    using TransferReferrers_references[OF s(3), of b src]
      TransferReferrers_references[OF s(4), of b src]
    by (simp add: reference_at_def nd nn option.map_comp)
  have none: "referenced ref \<noteq> dos \<and> referenced ref \<noteq> nt"
    if "reference_at b src r' = Some ref" for b src ref
  proof -
    from that refs[of b src] obtain ref0 where
      "ref = retarget nt 0 (builder_nt_headers_block r')
               (retarget dos 0 (builder_dos_header_block r') ref0)"
      by auto
    then show ?thesis
      using distinct by (simp add: retarget_referenced)
  qed
  have d0: "reference_at b src r' =
              Some \<lparr>referenced = builder_dos_header_block r', ref_offset = 0\<rparr>"
    if "reference_at b src ?r2 = Some \<lparr>referenced = dos, ref_offset = 0\<rparr>" for b src
    using that distinct by (simp add: refs retarget_at)
  have n0: "reference_at b src r' =
              Some \<lparr>referenced = builder_nt_headers_block r', ref_offset = 0\<rparr>"
    if "reference_at b src ?r2 = Some \<lparr>referenced = nt, ref_offset = 0\<rparr>" for b src
    using that distinct by (simp add: refs retarget_at)
  from none d0 n0 show ?thesis by blast
qed

text \<open>
  Witness for C2: in the example the references of block 1 to offset 0 of the original
  NT headers (block 7) and of the original DOS header (block 8) end at offset 0 of the new
  blocks 11 and 10, and its reference to offset 8 of block 7 has left block 7 too.
\<close>

theorem FinalizeImageHeaders_retargets_witness:
  "dos_header ex_PEHeader = Some 8 \<and> nt_headers ex_PEHeader = Some 7 \<and>
   map_option fst ex_finalized = Some True \<and>
   reference_at 1 0 (builder_finalized ex_externals ex_ref_relinker) =
     Some \<lparr>referenced = 7, ref_offset = 0\<rparr> \<and>
   reference_at 1 8 (builder_finalized ex_externals ex_ref_relinker) =
     Some \<lparr>referenced = 8, ref_offset = 0\<rparr> \<and>
   map_option (reference_at 1 0 \<circ> snd) ex_finalized =
     Some (Some \<lparr>referenced = 11, ref_offset = 0\<rparr>) \<and>
   map_option (reference_at 1 8 \<circ> snd) ex_finalized =
     Some (Some \<lparr>referenced = 10, ref_offset = 0\<rparr>) \<and>
   map_option (reference_at 1 4 \<circ> snd) ex_finalized =
     Some (Some \<lparr>referenced = 11, ref_offset = 8\<rparr>)"
proof -
  from ex_finalized_value obtain g where
    g: "ex_finalized = Some (True, ex_ref_relinker\<lparr>graph := g\<rparr>)"
    and g4: "blk_references (g 1) 4 = Some \<lparr>referenced = 11, ref_offset = 8\<rparr>"
    by blast
  let ?r' = "ex_ref_relinker\<lparr>graph := g\<rparr>"
  have ok: "FinalizeImageHeaders ex_externals ex_PEHeader ex_ref_relinker = Some (True, ?r')"
    using g by (simp add: ex_finalized_def)
  have dos: "dos_header ex_PEHeader = Some 8" and nt: "nt_headers ex_PEHeader = Some 7"
    by (simp_all add: ex_PEHeader_def)
  have d: "(8 :: nat) \<noteq> 7" "builder_dos_header_block ?r' \<noteq> 8" "builder_dos_header_block ?r' \<noteq> 7"
    "builder_nt_headers_block ?r' \<noteq> 8" "builder_nt_headers_block ?r' \<noteq> 7"
    by (simp_all add: ex_ref_relinker_def ex_relinker_def)
  have nb: "builder_dos_header_block ?r' = 10" "builder_nt_headers_block ?r' = 11"
    by (simp_all add: ex_ref_relinker_def ex_relinker_def)
  have b0: "reference_at 1 0 (builder_finalized ex_externals ex_ref_relinker) =
     Some \<lparr>referenced = 7, ref_offset = 0\<rparr>"
    and b8: "reference_at 1 8 (builder_finalized ex_externals ex_ref_relinker) =
     Some \<lparr>referenced = 8, ref_offset = 0\<rparr>"
    by (simp_all add: reference_at_def builder_finalized_def ex_externals_def
        ex_ref_relinker_def ex_relinker_def)
  from FinalizeImageHeaders_retargets[OF ok dos nt d] b0 b8
  have "reference_at 1 0 ?r' = Some \<lparr>referenced = builder_nt_headers_block ?r', ref_offset = 0\<rparr>"
    and "reference_at 1 8 ?r' = Some \<lparr>referenced = builder_dos_header_block ?r', ref_offset = 0\<rparr>"
    by blast+
  then show ?thesis
    unfolding g using dos nt b0 b8 g4 by (simp add: nb reference_at_def)
qed

section \<open>Properties of the orchestration driver\<close>

subsection \<open>The debug directory\<close>

lemma u32_of_bytes:
  "(ucast (ucast w :: 8 word) :: 32 word) OR push_bit 8 (ucast (ucast (drop_bit 8 w) :: 8 word)) OR
        push_bit 16 (ucast (ucast (drop_bit 16 w) :: 8 word)) OR
        push_bit 24 (ucast (ucast (drop_bit 24 w) :: 8 word)) = w"
  apply (rule bit_eqI)
  apply (auto simp: bit_simps)
  subgoal for n by (cases "n < 24") auto
  done

lemma le32_bytes_of_u32:
  "le32 (pre @ bytes_of_u32 w @ post) (length pre) = w"
  using u32_of_bytes[of w] by (simp add: le32_def bytes_of_u32_def nth_append)

lemma le32_write_bytes:
  assumes "off + 4 \<le> length d"
  shows "le32 (write_bytes d off (bytes_of_u32 w)) off = w"
proof -
  have l: "length (take off d) = off" using assms by simp
  have "length (bytes_of_u32 w) = 4" by (simp add: bytes_of_u32_def)
  then have "write_bytes d off (bytes_of_u32 w) = take off d @ bytes_of_u32 w @ drop (off + 4) d"
    by (simp add: write_bytes_def)
  then show ?thesis
    using le32_bytes_of_u32[of "take off d" w "drop (off + 4) d"] by (simp only: l)
qed

text \<open>
  Claim C9. \<open>UpdateDebugInformation\<close> is not atomic on error. For a debug-directory
  block of the record size and the CodeView type whose copy can be allocated, a failure
  of the payload check (no reference at \<open>AddressOfRawData\<close>, a reference with a non-zero
  offset, or a payload block smaller than the fixed payload header) returns failure in a
  state where the data of the debug-directory block has already been replaced by the
  copy: its timestamp field reads the fresh time, and the data differs from the original
  whenever the original timestamp was another one.
\<close>

theorem UpdateDebugInformation_not_atomic:
  assumes len: "length (blk_data (graph r p)) = 28"
    and ty: "le32 (blk_data (graph r p)) 12 = IMAGE_DEBUG_TYPE_CODEVIEW"
    and alloc: "alloc_ok ext 28"
    and bad: "GetReference (graph r p) 20 = None \<or>
              (\<exists>ref. GetReference (graph r p) 20 = Some ref \<and>
                 (ref_offset ref \<noteq> 0 \<or> blk_size (graph r (referenced ref)) < sizeof_CvInfoPdb70))"
  shows "UpdateDebugInformation ext (Some p) r =
           Some (False, r\<lparr>graph := (graph r)(p := (graph r p)
                   \<lparr>blk_data := write_bytes (blk_data (graph r p)) 4 (bytes_of_u32 (time_now ext))\<rparr>)\<rparr>) \<and>
         le32 (write_bytes (blk_data (graph r p)) 4 (bytes_of_u32 (time_now ext))) 4 = time_now ext \<and>
         (le32 (blk_data (graph r p)) 4 \<noteq> time_now ext \<longrightarrow>
            write_bytes (blk_data (graph r p)) 4 (bytes_of_u32 (time_now ext)) \<noteq> blk_data (graph r p))"
proof -
  let ?d = "blk_data (graph r p)"
  let ?d' = "write_bytes ?d 4 (bytes_of_u32 (time_now ext))"
  have ds: "data_size (graph r p) = sizeof_IMAGE_DEBUG_DIRECTORY"
    by (simp add: data_size_def len sizeof_IMAGE_DEBUG_DIRECTORY_def)
  have l': "length ?d' = 28"
    using len by (simp add: write_bytes_def bytes_of_u32_def)
  have cd: "CopyData ext p ?d' (graph r) = Some ((graph r)(p := (graph r p)\<lparr>blk_data := ?d'\<rparr>))"
    using alloc by (simp add: CopyData_def l')
  let ?g1 = "(graph r)(p := (graph r p)\<lparr>blk_data := ?d'\<rparr>)"
  have ref: "GetReference (?g1 p) 20 = GetReference (graph r p) 20"
    by (simp add: GetReference_def)
  have sz: "blk_size (?g1 b) = blk_size (graph r b)" for b
    by simp
  have 1: "UpdateDebugInformation ext (Some p) r = Some (False, r\<lparr>graph := ?g1\<rparr>)"
    using bad
    by (auto simp: UpdateDebugInformation_def ds ty cd Let_def ref sz simp del: fun_upd_apply)
  have 2: "le32 ?d' 4 = time_now ext"
    using len by (simp add: le32_write_bytes)
  from 1 2 show ?thesis by auto
qed

text \<open>
  Witness for C9: a CodeView debug directory without a payload reference; the call fails
  and the block carries the timestamp \<open>0x12345678\<close> instead of 0.
\<close>

theorem UpdateDebugInformation_not_atomic_witness:
  "length (blk_data (graph ex_bad_debug_relinker 26)) = 28 \<and>
   le32 (blk_data (graph ex_bad_debug_relinker 26)) 12 = IMAGE_DEBUG_TYPE_CODEVIEW \<and>
   alloc_ok ex_externals 28 \<and>
   GetReference (graph ex_bad_debug_relinker 26) 20 = None \<and>
   le32 (blk_data (graph ex_bad_debug_relinker 26)) 4 \<noteq> time_now ex_externals \<and>
   UpdateDebugInformation ex_externals (Some 26) ex_bad_debug_relinker =
     Some (False, ex_bad_debug_relinker\<lparr>graph := (graph ex_bad_debug_relinker)
        (26 := (graph ex_bad_debug_relinker 26)\<lparr>blk_data :=
           write_bytes (blk_data (graph ex_bad_debug_relinker 26)) 4
             (bytes_of_u32 (time_now ex_externals))\<rparr>)\<rparr>) \<and>
   write_bytes (blk_data (graph ex_bad_debug_relinker 26)) 4
     (bytes_of_u32 (time_now ex_externals)) \<noteq> blk_data (graph ex_bad_debug_relinker 26)"
proof -
  have a: "length (blk_data (graph ex_bad_debug_relinker 26)) = 28"
    by (simp add: ex_bad_debug_relinker_def)
  have b: "le32 (blk_data (graph ex_bad_debug_relinker 26)) 12 = IMAGE_DEBUG_TYPE_CODEVIEW"
    by (simp add: ex_bad_debug_relinker_def le32_def IMAGE_DEBUG_TYPE_CODEVIEW_def)
  have c: "alloc_ok ex_externals 28"
    by (simp add: ex_externals_def)
  have d: "GetReference (graph ex_bad_debug_relinker 26) 20 = None"
    by (simp add: ex_bad_debug_relinker_def GetReference_def)
  have e: "le32 (blk_data (graph ex_bad_debug_relinker 26)) 4 \<noteq> time_now ex_externals"
    by (simp add: ex_bad_debug_relinker_def le32_def ex_externals_def)
  from UpdateDebugInformation_not_atomic[OF a b c disjI1[OF d]] a b c d e
  show ?thesis by blast
qed

subsection \<open>The result of a run\<close>






lemma assign_all_accept:
  "\<forall>i b r. SetDataDirectoryEntry ext i b r = (True, r) \<Longrightarrow> assign_all ext es r = (True, r)"
  by (induction es) auto

lemma CopyDataDirectory_accept:
  "\<forall>i b r. SetDataDirectoryEntry ext i b r = (True, r) \<Longrightarrow>
   CopyDataDirectory ext hdr r = (True, r)"
  by (simp add: CopyDataDirectory_def CopyDataDirectory_loop_eq assign_all_accept)

lemma ex_run:
  "\<exists>r'. Relink ex_failing_externals ex_PEHeader ''in.pdb'' ''out.dll'' ''out.pdb'' ex_run_relinker
     = Some (True, [Unable_to_reorder_code, Unable_to_finalize_image_headers], r')"
  by (simp add: Relink_def CopyDataDirectory_accept
       Relinker_Initialize_def Initialize_def Let_def ex_run_relinker_def ex_PEHeader_def
       ex_run_graph_def data_size_def sizeof_IMAGE_NT_HEADERS_def
       sizeof_IMAGE_SECTION_HEADER_def GetReference_def entrypoint_offset_def nt_headers_of_def
       le16_def le32_def ex_failing_externals_def ex_externals_def section_headers_of_def
       section_header_of_def ex_relinker_def ex_nt_headers_def
       Relink_sections.simps[of _ _ _ 0] Relink_sections.simps[of _ _ _ "Suc 0"]
       IMAGE_SCN_CNT_CODE_def upt_rec
       IMAGE_DIRECTORY_ENTRY_DEBUG_def UpdateDebugInformation_def sizeof_IMAGE_DEBUG_DIRECTORY_def
       IMAGE_DEBUG_TYPE_CODEVIEW_def CopyData_def write_bytes_def bytes_of_u32_def
       sizeof_CvInfoPdb70_def FinalizeImageHeaders_def Relink_finish_def WriteImage_def
       WritePDBFile_def WritePDBFile_omap_to_def WritePDBFile_omap_from_def
       AddOmapForAllSections_eq)




















text \<open>
  The same run with an image writer that fails: the result is failure, though every
  other step is as before.
\<close>

lemma Relink_image_write_failure_example:
  "\<exists>r'. Relink (ex_failing_externals\<lparr>PEFileWriter_WriteImage := (\<lambda>p r. False)\<rparr>) ex_PEHeader
           ''in.pdb'' ''out.dll'' ''out.pdb'' ex_run_relinker
     = Some (False, [Unable_to_reorder_code, Unable_to_finalize_image_headers,
                     Unable_to_write_image], r')"
  by (simp add: Relink_def CopyDataDirectory_accept
       Relinker_Initialize_def Initialize_def Let_def ex_run_relinker_def ex_PEHeader_def
       ex_run_graph_def data_size_def sizeof_IMAGE_NT_HEADERS_def
       sizeof_IMAGE_SECTION_HEADER_def GetReference_def entrypoint_offset_def nt_headers_of_def
       le16_def le32_def ex_failing_externals_def ex_externals_def section_headers_of_def
       section_header_of_def ex_relinker_def ex_nt_headers_def
       Relink_sections.simps[of _ _ _ 0] Relink_sections.simps[of _ _ _ "Suc 0"]
       IMAGE_SCN_CNT_CODE_def upt_rec
       IMAGE_DIRECTORY_ENTRY_DEBUG_def UpdateDebugInformation_def sizeof_IMAGE_DEBUG_DIRECTORY_def
       IMAGE_DEBUG_TYPE_CODEVIEW_def CopyData_def write_bytes_def bytes_of_u32_def
       sizeof_CvInfoPdb70_def FinalizeImageHeaders_def Relink_finish_def WriteImage_def)

end
